theory Spec2Isabelle
  imports Complex_Main "HOL-Library.Word" "HOL-Library.Signed_Division"
begin

section \<open>PatchMatch inpainting (kis\_clone\_test.cpp): data model\<close>

text \<open>
  The embedding follows \<^verbatim>\<open>kis_clone_test.cpp\<close>. Coordinates, sizes and counters of type
  \<^verbatim>\<open>int\<close> are modelled as \<^typ>\<open>int\<close>. The arithmetic of the two \<^verbatim>\<open>distance\<close> functions,
  the only place where the source accumulates sums and multiplies them, is written with
  its machine width: an \<^verbatim>\<open>int\<close> has 32 bits and a \<^verbatim>\<open>long\<close> has 64 bits (the LP64 model
  of the Linux build the source belongs to), and a result that does not fit wraps around
  (\<open>wrap_int\<close>, \<open>wrap_long\<close>). A \<^verbatim>\<open>quint8\<close> is an 8-bit word. The division \<^verbatim>\<open>/\<close> of
  C++ on integers truncates towards zero and is written \<open>sdiv\<close>.
\<close>

type_synonym quint8 = "8 word"

definition MAX_DIST :: int where
  "MAX_DIST = 65535"

text \<open>
  The value a 32-bit \<^verbatim>\<open>int\<close> and a 64-bit \<^verbatim>\<open>long\<close> hold after an operation whose exact
  result is \<open>v\<close>: \<open>v\<close> itself when it fits, \<open>v\<close> reduced modulo \<open>2\<^sup>3\<^sup>2\<close> or \<open>2\<^sup>6\<^sup>4\<close> into the
  signed range otherwise.
\<close>

definition wrap_int :: "int \<Rightarrow> int" where
  "wrap_int v = (v + 2 ^ 31) mod 2 ^ 32 - 2 ^ 31"

definition wrap_long :: "int \<Rightarrow> int" where
  "wrap_long v = (v + 2 ^ 63) mod 2 ^ 64 - 2 ^ 63"

text \<open>\<^verbatim>\<open>QRect\<close>: the four numbers \<^verbatim>\<open>getRect\<close> returns.\<close>

record QRect =
  rect_x :: int
  rect_y :: int
  width :: int
  height :: int

datatype enumChannelType = COLOR | ALPHA

text \<open>
  \<^verbatim>\<open>KisPaintDevice\<close> is a class of the host; its code is not part of the sources. A device
  is modelled by what the inpainting code reads from it: the channel list of its colour
  space (\<^verbatim>\<open>colorSpace()->channels()\<close>, one byte per channel), its \<^verbatim>\<open>exactBounds()\<close>, and
  the raw pixel at every coordinate (the default pixel outside the painted area).
\<close>

record KisPaintDevice =
  channels :: "enumChannelType list"
  exactBounds :: QRect
  rawData :: "int \<Rightarrow> int \<Rightarrow> quint8 list"

definition channelCount :: "KisPaintDevice \<Rightarrow> nat" where
  "channelCount dev = length (channels dev)"

definition colorChannelCount :: "KisPaintDevice \<Rightarrow> nat" where
  "colorChannelCount dev = length (filter (\<lambda>c. c \<noteq> ALPHA) (channels dev))"

text \<open>
  \<^verbatim>\<open>class MaskedImage\<close>: the two devices, the cached size and the two caches.
  \<^verbatim>\<open>maskCache[x][y]\<close> and \<^verbatim>\<open>imageCache[x][y][chan]\<close> are arrays of extents
  \<^verbatim>\<open>[width][height]\<close> and \<^verbatim>\<open>[width][height][nChannels]\<close>; the functions below are
  only read inside these extents wherever the source checks the index first.
\<close>

record MaskedImage =
  imageDev :: KisPaintDevice
  maskDev :: KisPaintDevice
  imageSize :: QRect
  maskCache :: "int \<Rightarrow> int \<Rightarrow> bool"
  imageCache :: "int \<Rightarrow> int \<Rightarrow> nat \<Rightarrow> quint8"

definition isMasked :: "MaskedImage \<Rightarrow> int \<Rightarrow> int \<Rightarrow> bool" where
  "isMasked m x y = maskCache m x y"

definition getImagePixelU8 :: "MaskedImage \<Rightarrow> int \<Rightarrow> int \<Rightarrow> nat \<Rightarrow> quint8" where
  "getImagePixelU8 m x y chan = imageCache m x y chan"

text \<open>
  \<^verbatim>\<open>cacheImage\<close> walks the image device over \<^verbatim>\<open>imageSize\<close>, so the cache entry
  \<open>(x, y)\<close> is the pixel at \<open>(imageSize.x + x, imageSize.y + y)\<close>; \<^verbatim>\<open>scaleToU8\<close> of a
  byte channel is the byte. \<^verbatim>\<open>cacheMask\<close> walks the mask device over
  \<^verbatim>\<open>QRect(0, 0, width, height)\<close> and stores \<^verbatim>\<open>*pixel < 128\<close>.
\<close>

definition cacheImageSize :: "MaskedImage \<Rightarrow> MaskedImage" where
  "cacheImageSize m = m\<lparr>imageSize := exactBounds (imageDev m)\<rparr>"

definition cacheImage :: "MaskedImage \<Rightarrow> MaskedImage" where
  "cacheImage m =
     m\<lparr>imageCache :=
         (\<lambda>x y chan. rawData (imageDev m) (rect_x (imageSize m) + x) (rect_y (imageSize m) + y) ! chan)\<rparr>"

definition cacheMask :: "MaskedImage \<Rightarrow> MaskedImage" where
  "cacheMask m = m\<lparr>maskCache := (\<lambda>x y. rawData (maskDev m) x y ! 0 < 128)\<rparr>"

definition cacheEverything :: "MaskedImage \<Rightarrow> MaskedImage" where
  "cacheEverything m = cacheMask (cacheImage (cacheImageSize m))"

text \<open>
  The constructor \<^verbatim>\<open>MaskedImage(_imageDev, _maskDev)\<close>: it copies the two devices and
  fills the caches. \<^verbatim>\<open>clone()\<close> constructs a new object from the two devices of this one.
\<close>

definition MaskedImage_new :: "KisPaintDevice \<Rightarrow> KisPaintDevice \<Rightarrow> MaskedImage" where
  "MaskedImage_new idev mdev =
     cacheEverything
       \<lparr>imageDev = idev, maskDev = mdev,
        imageSize = \<lparr>rect_x = 0, rect_y = 0, width = 0, height = 0\<rparr>,
        maskCache = (\<lambda>x y. False), imageCache = (\<lambda>x y chan. 0)\<rparr>"

definition clone :: "MaskedImage \<Rightarrow> MaskedImage" where
  "clone m = MaskedImage_new (imageDev m) (maskDev m)"

text \<open>
  \<^verbatim>\<open>MaskedImage::distance\<close>: the loop over the channels of the image device, all of
  them (the alpha channel too); the bytes are promoted to \<^verbatim>\<open>int\<close> before the
  subtraction, and the sum \<^verbatim>\<open>dsq\<close> is an \<^verbatim>\<open>int\<close>.
\<close>

definition MaskedImage_distance ::
  "MaskedImage \<Rightarrow> int \<Rightarrow> int \<Rightarrow> MaskedImage \<Rightarrow> int \<Rightarrow> int \<Rightarrow> int" where
  "MaskedImage_distance m x y other xo yo =
     fold (\<lambda>chan dsq.
             let v = uint (imageCache m x y chan) - uint (imageCache other xo yo chan)
             in wrap_int (dsq + v * v))
          [0 ..< channelCount (imageDev m)] 0"

section \<open>The nearest neighbour field\<close>

record NNPixel =
  nnx :: int
  nny :: int
  nndistance :: int

text \<open>
  \<^verbatim>\<open>class NearestNeighborField\<close>. The members \<^verbatim>\<open>input\<close> and \<^verbatim>\<open>output\<close> are the fields
  \<open>nnf_input\<close> (the target image) and \<open>nnf_output\<close> (the source image), \<^verbatim>\<open>channels\<close> is
  \<open>nnf_channels\<close>. \<^verbatim>\<open>similarity\<close> is a vector of floats, read here as real numbers;
  \<^verbatim>\<open>histogram\<close> is a \<^verbatim>\<open>boost::multi_array<int, 2>\<close>.
\<close>

record NearestNeighborField =
  patchSize :: int
  nnf_input :: MaskedImage
  nnf_output :: MaskedImage
  imSize :: QRect
  field :: "int \<Rightarrow> int \<Rightarrow> NNPixel"
  similarity :: "nat \<Rightarrow> real"
  nColors :: nat
  nnf_channels :: "enumChannelType list"
  histogram :: "nat \<Rightarrow> nat \<Rightarrow> int"

text \<open>
  \<^verbatim>\<open>init_similarity_curve\<close>, over the reals: the table has \<open>MAX_DIST + 1\<close> entries.
\<close>

definition init_similarity_curve :: "nat \<Rightarrow> real" where
  "init_similarity_curve i =
     (let s_zero = 999 / 1000; t_halfmax = 1 / 10;
          x = (s_zero - 1 / 2) * 2;
          invtanh = (1 / 2) * ln ((1 + x) / (1 - x));
          coef = invtanh / t_halfmax;
          t = real i / real_of_int (MAX_DIST + 1)
      in 1 / 2 - (1 / 2) * tanh (coef * (t - t_halfmax)))"

text \<open>
  The constructor \<^verbatim>\<open>NearestNeighborField(_input, _output, _patchsize)\<close>. The arrays
  \<^verbatim>\<open>field\<close> and \<^verbatim>\<open>histogram\<close> are resized and hold value-initialised elements, zeros.
\<close>

definition NearestNeighborField_new ::
  "MaskedImage \<Rightarrow> MaskedImage \<Rightarrow> int \<Rightarrow> NearestNeighborField" where
  "NearestNeighborField_new inp outp patchsize =
     \<lparr>patchSize = patchsize, nnf_input = inp, nnf_output = outp,
      imSize = imageSize inp,
      field = (\<lambda>x y. \<lparr>nnx = 0, nny = 0, nndistance = 0\<rparr>),
      similarity = init_similarity_curve,
      nColors = colorChannelCount (imageDev inp),
      nnf_channels = channels (imageDev inp),
      histogram = (\<lambda>c i. 0)\<rparr>"

definition ssdmax :: int where
  "ssdmax = 10 * 255 * 255"

text \<open>
  The body of the two loops of \<^verbatim>\<open>NearestNeighborField::distance\<close> at the offset
  \<open>(dx, dy)\<close>, on the pair \<^verbatim>\<open>(distance, wsum)\<close> of \<^verbatim>\<open>long\<close> variables; every \<^verbatim>\<open>continue\<close>
  is a branch.
\<close>

definition distance_body ::
  "NearestNeighborField \<Rightarrow> int \<Rightarrow> int \<Rightarrow> int \<Rightarrow> int \<Rightarrow> int \<Rightarrow> int \<Rightarrow> int \<times> int \<Rightarrow> int \<times> int" where
  "distance_body nnf x y xp yp dy dx acc =
     (let distance = fst acc; wsum = wrap_long (snd acc + ssdmax);
          xks = x + dx; yks = y + dy
      in if xks < 0 \<or> width (imageSize (nnf_input nnf)) \<le> xks
         then (wrap_long (distance + ssdmax), wsum)
         else if yks < 0 \<or> height (imageSize (nnf_input nnf)) \<le> yks
         then (wrap_long (distance + ssdmax), wsum)
         else if isMasked (nnf_input nnf) xks yks
         then (wrap_long (distance + ssdmax), wsum)
         else
           (let xkt = xp + dx; ykt = yp + dy
            in if xkt < 0 \<or> width (imageSize (nnf_output nnf)) \<le> xkt
               then (wrap_long (distance + ssdmax), wsum)
               else if ykt < 0 \<or> height (imageSize (nnf_output nnf)) \<le> ykt
               then (wrap_long (distance + ssdmax), wsum)
               else if isMasked (nnf_output nnf) xkt ykt
               then (wrap_long (distance + ssdmax), wsum)
               else (wrap_long (distance +
                       MaskedImage_distance (nnf_input nnf) xks yks (nnf_output nnf) xkt ykt),
                     wsum)))"

text \<open>
  The two loops of \<^verbatim>\<open>distance\<close>, \<^verbatim>\<open>dy\<close> outside and \<^verbatim>\<open>dx\<close> inside, from \<open>-patchSize\<close> to
  \<open>patchSize\<close>, and the value returned, \<^verbatim>\<open>(int)(MAX_DIST*distance / wsum)\<close>: the product
  and the quotient are \<^verbatim>\<open>long\<close>, the cast narrows the quotient to an \<^verbatim>\<open>int\<close>.
\<close>

definition distance_sums ::
  "NearestNeighborField \<Rightarrow> int \<Rightarrow> int \<Rightarrow> int \<Rightarrow> int \<Rightarrow> int \<times> int" where
  "distance_sums nnf x y xp yp =
     fold (\<lambda>dy acc. fold (distance_body nnf x y xp yp dy) [- patchSize nnf .. patchSize nnf] acc)
          [- patchSize nnf .. patchSize nnf] (0, 0)"

definition distance :: "NearestNeighborField \<Rightarrow> int \<Rightarrow> int \<Rightarrow> int \<Rightarrow> int \<Rightarrow> int" where
  "distance nnf x y xp yp =
     (let s = distance_sums nnf x y xp yp
      in wrap_int (wrap_long (wrap_long (MAX_DIST * fst s) sdiv snd s)))"

text \<open>
  \<^verbatim>\<open>random_int\<close> draws from a generator that is a static of the function, seeded once
  from \<^verbatim>\<open>std::random_device\<close>. The generator is modelled by the sequence of its draws
  and the number of draws made so far; a draw for the argument \<open>bound\<close> (\<^verbatim>\<open>range\<close> in the
  source) is reduced into \<open>0 .. bound - 1\<close>. The source calls it with \<open>bound \<ge> 1\<close> only.
\<close>

type_synonym mt19937 = "(nat \<Rightarrow> nat) \<times> nat"

definition random_int :: "int \<Rightarrow> mt19937 \<Rightarrow> int \<times> mt19937" where
  "random_int bound gen = (int (fst gen (snd gen)) mod bound, (fst gen, Suc (snd gen)))"

definition set_field :: "NearestNeighborField \<Rightarrow> int \<Rightarrow> int \<Rightarrow> NNPixel \<Rightarrow> NearestNeighborField" where
  "set_field nnf x y p = nnf\<lparr>field := (field nnf)(x := (field nnf x)(y := p))\<rparr>"

text \<open>
  The retry loop of \<^verbatim>\<open>initialize()\<close>; the first argument is \<^verbatim>\<open>maxretry - iter\<close>.
\<close>

fun initialize_retry ::
  "nat \<Rightarrow> int \<Rightarrow> int \<Rightarrow> NearestNeighborField \<times> mt19937 \<Rightarrow> NearestNeighborField \<times> mt19937" where
  "initialize_retry 0 x y s = s"
| "initialize_retry (Suc n) x y (nnf, gen) =
     (if nndistance (field nnf x y) = MAX_DIST then
        (let (rx, gen1) = random_int (width (imSize nnf)) gen;
             (ry, gen2) = random_int (height (imSize nnf)) gen1;
             d = distance nnf x y rx ry
         in initialize_retry n x y
              (set_field nnf x y \<lparr>nnx = rx, nny = ry, nndistance = d\<rparr>, gen2))
      else (nnf, gen))"

definition initialize_pixel ::
  "int \<Rightarrow> int \<Rightarrow> NearestNeighborField \<times> mt19937 \<Rightarrow> NearestNeighborField \<times> mt19937" where
  "initialize_pixel y x s =
     (let nnf = fst s; p = field nnf x y;
          nnf1 = set_field nnf x y (p\<lparr>nndistance := distance nnf x y (nnx p) (nny p)\<rparr>)
      in initialize_retry 20 x y (nnf1, snd s))"

definition initialize :: "NearestNeighborField \<times> mt19937 \<Rightarrow> NearestNeighborField \<times> mt19937" where
  "initialize s =
     fold (\<lambda>y s1. fold (initialize_pixel y) [0 .. width (imSize (fst s)) - 1] s1)
          [0 .. height (imSize (fst s)) - 1] s"

definition randomize_pixel ::
  "int \<Rightarrow> int \<Rightarrow> NearestNeighborField \<times> mt19937 \<Rightarrow> NearestNeighborField \<times> mt19937" where
  "randomize_pixel y x s =
     (let nnf = fst s;
          (rx, gen1) = random_int (width (imSize nnf)) (snd s);
          (ry, gen2) = random_int (height (imSize nnf)) gen1
      in (set_field nnf x y \<lparr>nnx = rx, nny = ry, nndistance = MAX_DIST\<rparr>, gen2))"

definition randomize :: "NearestNeighborField \<times> mt19937 \<Rightarrow> NearestNeighborField \<times> mt19937" where
  "randomize s =
     initialize
       (fold (\<lambda>y s1. fold (randomize_pixel y) [0 .. width (imSize (fst s)) - 1] s1)
             [0 .. height (imSize (fst s)) - 1] s)"

text \<open>
  \<^verbatim>\<open>minimizeLink\<close>, in its three parts. Each part ends with the same test: the candidate
  \<open>(xp, yp)\<close> replaces the entry when its distance is strictly smaller.
\<close>

definition adopt ::
  "NearestNeighborField \<Rightarrow> int \<Rightarrow> int \<Rightarrow> int \<Rightarrow> int \<Rightarrow> NearestNeighborField" where
  "adopt nnf x y xp yp =
     (let dp = distance nnf x y xp yp
      in if dp < nndistance (field nnf x y)
         then set_field nnf x y \<lparr>nnx = xp, nny = yp, nndistance = dp\<rparr>
         else nnf)"

definition propagate_x :: "NearestNeighborField \<Rightarrow> int \<Rightarrow> int \<Rightarrow> int \<Rightarrow> NearestNeighborField" where
  "propagate_x nnf x y dir =
     (if x - dir > 0 \<and> x - dir < width (imSize nnf)
      then adopt nnf x y (nnx (field nnf (x - dir) y) + dir) (nny (field nnf (x - dir) y))
      else nnf)"

definition propagate_y :: "NearestNeighborField \<Rightarrow> int \<Rightarrow> int \<Rightarrow> int \<Rightarrow> NearestNeighborField" where
  "propagate_y nnf x y dir =
     (if y - dir > 0 \<and> y - dir < height (imSize nnf)
      then adopt nnf x y (nnx (field nnf x y)) (nny (field nnf x y) + dir)
      else nnf)"

function random_search ::
  "int \<Rightarrow> int \<Rightarrow> int \<Rightarrow> int \<Rightarrow> int \<Rightarrow> NearestNeighborField \<times> mt19937 \<Rightarrow> NearestNeighborField \<times> mt19937" where
  "random_search wi xpi ypi x y s =
     (if wi > 0 then
        (let nnf = fst s;
             (r1, gen1) = random_int (2 * wi) (snd s);
             (r2, gen2) = random_int (2 * wi) gen1;
             xp = max 0 (min (width (imageSize (nnf_output nnf)) - 1) (xpi + r1 - wi));
             yp = max 0 (min (height (imageSize (nnf_output nnf)) - 1) (ypi + r2 - wi))
         in random_search (wi sdiv 2) xpi ypi x y (adopt nnf x y xp yp, gen2))
      else s)"
  by pat_completeness auto
termination
  by (relation "measure (\<lambda>(wi, xpi, ypi, x, y, s). nat wi)")
     (auto simp: signed_divide_int_def sgn_if)

definition minimizeLink ::
  "int \<Rightarrow> int \<Rightarrow> int \<Rightarrow> NearestNeighborField \<times> mt19937 \<Rightarrow> NearestNeighborField \<times> mt19937" where
  "minimizeLink x y dir s =
     (let nnf1 = propagate_x (fst s) x y dir;
          nnf2 = propagate_y nnf1 x y dir;
          wi = width (imageSize (nnf_output nnf2));
          xpi = nnx (field nnf2 x y);
          ypi = nny (field nnf2 x y)
      in random_search wi xpi ypi x y (nnf2, snd s))"

text \<open>
  The two scans of one pass of \<^verbatim>\<open>minimize\<close>, as the lists of the pixels the loops
  reach, in the order they reach them: the loop heads are
  \<^verbatim>\<open>for(y=min_y; y<max_y; y++) for(x=min_x; x<=max_x; x++)\<close> and
  \<^verbatim>\<open>for(y=max_y; y>=min_y; y--) for(x=max_x; x>=min_x; x--)\<close>.
\<close>

definition forward_scan :: "NearestNeighborField \<Rightarrow> (int \<times> int) list" where
  "forward_scan nnf =
     (let min_x = 0; min_y = 0;
          max_x = width (imSize nnf) - 1; max_y = height (imSize nnf) - 1
      in concat (map (\<lambda>y. map (\<lambda>x. (x, y)) [min_x .. max_x]) [min_y .. max_y - 1]))"

definition reverse_scan :: "NearestNeighborField \<Rightarrow> (int \<times> int) list" where
  "reverse_scan nnf =
     (let min_x = 0; min_y = 0;
          max_x = width (imSize nnf) - 1; max_y = height (imSize nnf) - 1
      in concat (map (\<lambda>y. map (\<lambda>x. (x, y)) (rev [min_x .. max_x])) (rev [min_y .. max_y])))"

definition forward_visit ::
  "int \<times> int \<Rightarrow> NearestNeighborField \<times> mt19937 \<Rightarrow> NearestNeighborField \<times> mt19937" where
  "forward_visit p s =
     (if nndistance (field (fst s) (fst p) (snd p)) > 0 then minimizeLink (fst p) (snd p) 1 s
      else s)"

definition reverse_visit ::
  "int \<times> int \<Rightarrow> NearestNeighborField \<times> mt19937 \<Rightarrow> NearestNeighborField \<times> mt19937" where
  "reverse_visit p s =
     (if nndistance (field (fst s) (fst p) (snd p)) \<noteq> 0 then minimizeLink (fst p) (snd p) (- 1) s
      else s)"

definition minimize_pass :: "NearestNeighborField \<times> mt19937 \<Rightarrow> NearestNeighborField \<times> mt19937" where
  "minimize_pass s =
     (let s1 = fold forward_visit (forward_scan (fst s)) s
      in fold reverse_visit (reverse_scan (fst s1)) s1)"

definition minimize ::
  "int \<Rightarrow> NearestNeighborField \<times> mt19937 \<Rightarrow> NearestNeighborField \<times> mt19937" where
  "minimize pass s = (minimize_pass ^^ nat pass) s"

section \<open>MaskedImage: mask clearing, downsampling, upscaling\<close>

text \<open>
  \<^verbatim>\<open>KisPaintDevice::fill(x, y, w, h, &val)\<close> is code of the host: every pixel of the
  rectangle becomes the pixel \<open>val\<close>.
\<close>

definition fill :: "int \<Rightarrow> int \<Rightarrow> int \<Rightarrow> int \<Rightarrow> quint8 list \<Rightarrow> KisPaintDevice \<Rightarrow> KisPaintDevice" where
  "fill x0 y0 w h val dev =
     dev\<lparr>rawData :=
           (\<lambda>x y. if x0 \<le> x \<and> x < x0 + w \<and> y0 \<le> y \<and> y < y0 + h then val
                  else rawData dev x y)\<rparr>"

text \<open>
  \<^verbatim>\<open>clearMask\<close> fills the mask device over its bounds with the byte 0. It does not call
  \<^verbatim>\<open>cacheMask\<close>: \<^verbatim>\<open>maskCache\<close>, which \<^verbatim>\<open>isMasked\<close> reads, keeps its entries.
\<close>

definition clearMask :: "MaskedImage \<Rightarrow> MaskedImage" where
  "clearMask m =
     (let sz = exactBounds (maskDev m); val = [0]
      in m\<lparr>maskDev := fill (rect_x sz) (rect_y sz) (width sz) (height sz) val (maskDev m)\<rparr>)"

text \<open>
  \<^verbatim>\<open>countMasked\<close> counts the entries \<^verbatim>\<open>true\<close> of \<^verbatim>\<open>maskCache\<close>, an array of extents
  \<^verbatim>\<open>[width][height]\<close>.
\<close>

definition countMasked :: "MaskedImage \<Rightarrow> int" where
  "countMasked m =
     int (length (filter (\<lambda>c. maskCache m (fst c) (snd c))
            (concat (map (\<lambda>x. map (\<lambda>y. (x, y)) [0 .. height (imageSize m) - 1])
                         [0 .. width (imageSize m) - 1]))))"

text \<open>\<^verbatim>\<open>#define isOdd(x) ((x) & 0x01)\<close> and \<^verbatim>\<open>alignRectBy2\<close>, statement by statement.\<close>

definition isOdd :: "int \<Rightarrow> int" where
  "isOdd x = x mod 2"

definition alignRectBy2 :: "QRect \<Rightarrow> QRect" where
  "alignRectBy2 r =
     (let x1 = rect_x r - isOdd (rect_x r);
          y1 = rect_y r - isOdd (rect_y r);
          w1 = width r + isOdd x1;
          w2 = w1 + isOdd w1;
          h1 = height r + isOdd y1;
          h2 = h1 + isOdd h1
      in \<lparr>rect_x = x1, rect_y = y1, width = w2, height = h2\<rparr>)"

text \<open>
  \<^verbatim>\<open>KoMixColorsOp::mixColors(pixels, weights, 4, dst)\<close> is code of the host; the operation
  of a colour space is a parameter of the model: it maps the pixels and the weights to
  the mixed pixel.
\<close>

type_synonym KoMixColorsOp = "quint8 list list \<Rightarrow> int list \<Rightarrow> quint8 list"

text \<open>
  The loop of \<^verbatim>\<open>downsample2x\<close> over \<^verbatim>\<open>downsampleRow\<close>, for one device: the iterators
  start at \<open>(srcX, srcY)\<close> and \<open>(srcX, srcY + 1)\<close> in the source and at \<open>(dstX, dstY)\<close> in
  the new device; pixel \<open>i\<close> of row \<open>row\<close> of the new device mixes the source pixels at
  columns \<open>srcX + 2i\<close>, \<open>srcX + 2i + 1\<close> of the rows \<open>srcY + 2row\<close>, \<open>srcY + 2row + 1\<close> with the
  weights \<open>64, 64, 64, 63\<close>, in the order the row loop reads them. Modelled from the
  spec: \<^verbatim>\<open>KisPaintDevice\<close> is not part of the sources; the new device has the colour
  space of the old one, the default pixel zero, and the rectangle written as its exact
  bounds (by the specification the size after \<open>downsample2x\<close> is half the aligned size).
\<close>

definition downsample_device ::
  "KoMixColorsOp \<Rightarrow> KisPaintDevice \<Rightarrow> QRect \<Rightarrow> QRect \<Rightarrow> KisPaintDevice" where
  "downsample_device mix dev src dst =
     \<lparr>channels = channels dev, exactBounds = dst,
      rawData =
        (\<lambda>x y. if rect_x dst \<le> x \<and> x < rect_x dst + width dst \<and>
                   rect_y dst \<le> y \<and> y < rect_y dst + height dst
                then (let sx = rect_x src + 2 * (x - rect_x dst);
                          sy = rect_y src + 2 * (y - rect_y dst)
                      in mix [rawData dev sx sy, rawData dev (sx + 1) sy,
                              rawData dev sx (sy + 1), rawData dev (sx + 1) (sy + 1)]
                             [64, 64, 64, 63])
                else replicate (length (channels dev)) 0)\<rparr>"

definition downsample2x :: "(enumChannelType list \<Rightarrow> KoMixColorsOp) \<Rightarrow> MaskedImage \<Rightarrow> MaskedImage" where
  "downsample2x mixColorsOp m =
     (let src = alignRectBy2 (exactBounds (imageDev m))
      in if width src < 1 \<or> height src < 1 then m
         else
           (let dst = \<lparr>rect_x = rect_x src sdiv 2, rect_y = rect_y src sdiv 2,
                       width = width src sdiv 2, height = height src sdiv 2\<rparr>
            in cacheEverything
                 (m\<lparr>imageDev :=
                       downsample_device (mixColorsOp (channels (imageDev m))) (imageDev m) src dst,
                     maskDev :=
                       downsample_device (mixColorsOp (channels (maskDev m))) (maskDev m) src dst\<rparr>)))"

text \<open>
  \<^verbatim>\<open>KisTransformWorker\<close> is code of the host. Modelled from the spec: run with the factors
  \<open>(xscale, yscale)\<close> and no shear, rotation or translation, the worker resamples the
  device to \<open>xscale\<close> times its width and \<open>yscale\<close> times its height; the resampled pixels
  (the filter) are a parameter. \<^verbatim>\<open>upscale\<close> passes \<^verbatim>\<open>xsize/sz.width()\<close> and
  \<^verbatim>\<open>ysize/sz.height()\<close>, quotients of two \<^verbatim>\<open>int\<close>s, so the factors are whole numbers.
\<close>

type_synonym KisFilterStrategy = "KisPaintDevice \<Rightarrow> int \<Rightarrow> int \<Rightarrow> int \<Rightarrow> int \<Rightarrow> quint8 list"

definition KisTransformWorker_run ::
  "KisFilterStrategy \<Rightarrow> int \<Rightarrow> int \<Rightarrow> KisPaintDevice \<Rightarrow> KisPaintDevice" where
  "KisTransformWorker_run strategy xscale yscale dev =
     dev\<lparr>exactBounds :=
           \<lparr>rect_x = rect_x (exactBounds dev) * xscale, rect_y = rect_y (exactBounds dev) * yscale,
            width = width (exactBounds dev) * xscale, height = height (exactBounds dev) * yscale\<rparr>,
         rawData := strategy dev xscale yscale\<rparr>"

text \<open>
  \<^verbatim>\<open>upscale(xsize, ysize)\<close>. The two quotients divide by the cached width and height; a
  division by zero is the result \<open>None\<close>.
\<close>

definition upscale :: "KisFilterStrategy \<Rightarrow> int \<Rightarrow> int \<Rightarrow> MaskedImage \<Rightarrow> MaskedImage option" where
  "upscale bilinear xsize ysize m =
     (let sz = imageSize m
      in if width sz = 0 \<or> height sz = 0 then None
         else
           (let scaledImage = clone m;
                imageDev' = KisTransformWorker_run bilinear (xsize sdiv width sz) (ysize sdiv height sz)
                              (imageDev scaledImage);
                maskDev' = KisTransformWorker_run bilinear (xsize sdiv width sz) (ysize sdiv height sz)
                              (maskDev scaledImage)
            in Some (cacheEverything (scaledImage\<lparr>imageDev := imageDev', maskDev := maskDev'\<rparr>))))"

section \<open>Inpaint: the pyramid, the EM loop and the voting step\<close>

text \<open>
  The functions of the host that \<^verbatim>\<open>Inpaint\<close> calls are collected in one record: the
  colour mixing operation of a colour space, the bilinear filter of the transform worker,
  and the two conversions between a raw pixel and its normalised float channels. A float
  is read as a real number; the result of a float division is \<open>None\<close> when the divisor is
  zero (the float is then a NaN or an infinity).
\<close>

type_synonym float = "real option"

record KritaHost =
  mixColorsOp :: "enumChannelType list \<Rightarrow> KoMixColorsOp"
  bilinear :: KisFilterStrategy
  normalisedChannelsValue :: "quint8 list \<Rightarrow> float list"
  fromNormalisedChannelsValue :: "float list \<Rightarrow> quint8 list"

definition fdiv :: "real \<Rightarrow> real \<Rightarrow> float" where
  "fdiv a b = (if b = 0 then None else Some (a / b))"

text \<open>The conversion of a float to an \<^verbatim>\<open>int\<close> drops the fraction.\<close>

definition float_to_int :: "real \<Rightarrow> int" where
  "float_to_int r = (if 0 \<le> r then \<lfloor>r\<rfloor> else \<lceil>r\<rceil>)"

text \<open>
  The loop of the pyramid in \<^verbatim>\<open>patch\<close>:
  \<^verbatim>\<open>while((size.width() > radius) && (size.height() > radius))\<close> with the \<^verbatim>\<open>break\<close> on
  \<^verbatim>\<open>countMasked() == 0\<close>. The loop need not end for every radius, so the result is an
  option.
\<close>

partial_function (option) pyramid_loop ::
  "KritaHost \<Rightarrow> int \<Rightarrow> MaskedImage \<Rightarrow> MaskedImage list \<Rightarrow> (MaskedImage \<times> MaskedImage list) option" where
  "pyramid_loop host radius source pyramid =
     (if width (imageSize source) > radius \<and> height (imageSize source) > radius then
        (if countMasked source = 0 then Some (source, pyramid)
         else pyramid_loop host radius (downsample2x (mixColorsOp host) source)
                (pyramid @ [clone (downsample2x (mixColorsOp host) source)]))
      else Some (source, pyramid))"

text \<open>
  \<^verbatim>\<open>EM_Step\<close>, estimation. \<^verbatim>\<open>histogram[colorChan][colorValue]+=w\<close> adds a float to an
  \<^verbatim>\<open>int\<close> entry: the sum is converted back to \<^verbatim>\<open>int\<close>.
\<close>

definition vote_channel ::
  "NearestNeighborField \<Rightarrow> MaskedImage \<Rightarrow> int \<Rightarrow> int \<Rightarrow> real \<Rightarrow> nat \<Rightarrow>
     (nat \<Rightarrow> nat \<Rightarrow> int) \<times> nat \<Rightarrow> (nat \<Rightarrow> nat \<Rightarrow> int) \<times> nat" where
  "vote_channel nnf source x y w chan acc =
     (let hist = fst acc; colorChan = snd acc
      in if nnf_channels nnf ! chan \<noteq> ALPHA then
           (let colorValue = unat (getImagePixelU8 source x y chan)
            in (hist(colorChan := (hist colorChan)
                       (colorValue := float_to_int (real_of_int (hist colorChan colorValue) + w))),
                colorChan + 1))
         else (hist, colorChan))"

definition estimate_body ::
  "MaskedImage \<Rightarrow> NearestNeighborField \<Rightarrow> bool \<Rightarrow> int \<Rightarrow> int \<Rightarrow> int \<Rightarrow> int \<Rightarrow>
     (nat \<Rightarrow> nat \<Rightarrow> int) \<times> real \<Rightarrow> (nat \<Rightarrow> nat \<Rightarrow> int) \<times> real" where
  "estimate_body source nnf upscaled x y dy dx acc =
     (let sz = imageSize (nnf_input nnf);
          xpt = x + dx; ypt = y + dy;
          skip = (if \<not> upscaled
                  then xpt < 0 \<or> width sz \<le> xpt \<or> ypt < 0 \<or> height sz \<le> ypt
                  else xpt < 0 \<or> 2 * width sz \<le> xpt \<or> ypt < 0 \<or> 2 * height sz \<le> ypt)
      in if skip then acc
         else
           (let p = (if \<not> upscaled then field nnf xpt ypt
                     else field nnf (xpt sdiv 2) (ypt sdiv 2));
                xst = (if \<not> upscaled then nnx p else 2 * nnx p + xpt smod 2);
                yst = (if \<not> upscaled then nny p else 2 * nny p + ypt smod 2);
                w = similarity nnf (nat (nndistance p));
                xs = xst - dx; ys = yst - dy
            in if xs < 0 \<or> width sz \<le> xs then acc
               else if ys < 0 \<or> height sz \<le> ys then acc
               else if isMasked source xs ys then acc
               else (fst (fold (vote_channel nnf source x y w)
                            [0 ..< channelCount (imageDev (nnf_input nnf))] (fst acc, 0)),
                     snd acc + w)))"

definition estimate ::
  "MaskedImage \<Rightarrow> NearestNeighborField \<Rightarrow> bool \<Rightarrow> int \<Rightarrow> int \<Rightarrow> int \<Rightarrow> (nat \<Rightarrow> nat \<Rightarrow> int) \<times> real" where
  "estimate source nnf upscaled R x y =
     fold (\<lambda>dy acc. fold (estimate_body source nnf upscaled x y dy) [- R .. R] acc)
          [- R .. R] (\<lambda>c i. 0, 0)"

text \<open>
  \<^verbatim>\<open>EM_Step\<close>, maximization: the walk over the 256 bins of one colour channel, from bin
  \<open>i\<close> on; the state is \<^verbatim>\<open>(cdf, contrib, wcontrib)\<close>, the result \<^verbatim>\<open>(contrib, wcontrib)\<close>.
\<close>

function cdf_walk ::
  "(nat \<Rightarrow> int) \<Rightarrow> real \<Rightarrow> real \<Rightarrow> nat \<Rightarrow> real \<times> real \<times> real \<Rightarrow> real \<times> real" where
  "cdf_walk h lowth highth i st =
     (if i < 256 then
        (let cdf = fst st + real_of_int (h i)
         in if cdf < lowth then cdf_walk h lowth highth (i + 1) (cdf, snd st)
            else
              (let contrib = fst (snd st) + real_of_int (int i * h i);
                   wcontrib = snd (snd st) + real_of_int (h i)
               in if cdf > highth then (contrib, wcontrib)
                  else cdf_walk h lowth highth (i + 1) (cdf, contrib, wcontrib)))
      else snd st)"
  by pat_completeness auto
termination
  by (relation "measure (\<lambda>(h, lowth, highth, i, st). 256 - i)") auto

text \<open>
  \<^verbatim>\<open>setImagePixels\<close> writes the converted pixel into the image device; the caches are
  not refreshed.
\<close>

definition setImagePixels :: "KritaHost \<Rightarrow> int \<Rightarrow> int \<Rightarrow> float list \<Rightarrow> MaskedImage \<Rightarrow> MaskedImage" where
  "setImagePixels host x y chans m =
     m\<lparr>imageDev :=
         (imageDev m)\<lparr>rawData :=
            (rawData (imageDev m))
              (x := (rawData (imageDev m) x)(y := fromNormalisedChannelsValue host chans))\<rparr>\<rparr>"

definition getImagePixels :: "KritaHost \<Rightarrow> int \<Rightarrow> int \<Rightarrow> MaskedImage \<Rightarrow> float list" where
  "getImagePixels host x y m = normalisedChannelsValue host (rawData (imageDev m) x y)"

definition maximize_channel ::
  "KritaHost \<Rightarrow> NearestNeighborField \<Rightarrow> (nat \<Rightarrow> nat \<Rightarrow> int) \<Rightarrow> real \<Rightarrow> int \<Rightarrow> int \<Rightarrow> nat \<Rightarrow>
     float list \<times> nat \<times> MaskedImage \<Rightarrow> float list \<times> nat \<times> MaskedImage" where
  "maximize_channel host nnf hist wsum x y chan st =
     (let channel_values = fst st; colorChan = fst (snd st); target = snd (snd st);
          lowth = (4 / 10) * wsum; highth = (6 / 10) * wsum;
          st1 = (if nnf_channels nnf ! chan \<noteq> ALPHA then
                   (let r = cdf_walk (hist colorChan) lowth highth 0 (0, 0, 0)
                    in (channel_values[chan := fdiv (fst r) (snd r)], colorChan + 1))
                 else (channel_values, colorChan))
      in (fst st1, snd st1, setImagePixels host x y (fst st1) target))"

text \<open>One target pixel of \<^verbatim>\<open>EM_Step\<close>; the state is the target and the histogram.\<close>

definition EM_pixel ::
  "KritaHost \<Rightarrow> MaskedImage \<Rightarrow> NearestNeighborField \<Rightarrow> bool \<Rightarrow> int \<Rightarrow> int \<Rightarrow> int \<Rightarrow>
     MaskedImage \<times> (nat \<Rightarrow> nat \<Rightarrow> int) \<Rightarrow> MaskedImage \<times> (nat \<Rightarrow> nat \<Rightarrow> int)" where
  "EM_pixel host source nnf upscaled R y x st =
     (let target = fst st;
          e = estimate source nnf upscaled R x y;
          hist = fst e; wsum = snd e
      in if wsum < 1 then (target, hist)
         else
           (snd (snd (fold (maximize_channel host nnf hist wsum x y)
                        [0 ..< length (nnf_channels nnf)]
                        (getImagePixels host x y target, 0, target))),
            hist))"

definition EM_Step ::
  "KritaHost \<Rightarrow> int \<Rightarrow> MaskedImage \<Rightarrow> MaskedImage \<Rightarrow> NearestNeighborField \<Rightarrow> bool \<Rightarrow>
     MaskedImage \<times> NearestNeighborField" where
  "EM_Step host radius source target nnf upscaled =
     (let R = (if upscaled then radius * 2 else radius);
          st = fold (\<lambda>y st1. fold (EM_pixel host source nnf upscaled R y)
                                 [0 .. width (imageSize target) - 1] st1)
                    [0 .. height (imageSize target) - 1] (target, histogram nnf)
      in (fst st, nnf\<lparr>histogram := snd st\<rparr>))"

text \<open>
  \<^verbatim>\<open>ExpectationMaximization(level)\<close>. The state of the loop over \<^verbatim>\<open>emloop\<close> is the field
  \<^verbatim>\<open>nnf_TargetToSource\<close>, the generator and \<^verbatim>\<open>newtarget\<close> (\<open>None\<close> for the null pointer);
  \<^verbatim>\<open>target\<close> is the input of the field on entry. A failed \<^verbatim>\<open>upscale\<close> ends the run with
  \<open>None\<close>.
\<close>

definition EM_iteration ::
  "KritaHost \<Rightarrow> int \<Rightarrow> MaskedImage list \<Rightarrow> int \<Rightarrow> MaskedImage \<Rightarrow> int \<Rightarrow>
     (NearestNeighborField \<times> mt19937 \<times> MaskedImage option) option \<Rightarrow>
     (NearestNeighborField \<times> mt19937 \<times> MaskedImage option) option" where
  "EM_iteration host radius pyramid level target emloop st =
     (case st of
        None \<Rightarrow> None
      | Some (nnf0, gen0, newtarget0) \<Rightarrow>
          (let iterEM = min (2 * level) 4; iterNNF = min 5 level;
               nnf1 = (case newtarget0 of None \<Rightarrow> nnf0 | Some t \<Rightarrow> nnf0\<lparr>nnf_input := t\<rparr>);
               (nnf2, gen2) = minimize iterNNF (nnf1, gen0)
           in if level \<ge> 1 \<and> emloop = iterEM then
                (let newsource = pyramid ! nat (level - 1);
                     sz = imageSize newsource
                 in case upscale (bilinear host) (width sz) (height sz) target of
                      None \<Rightarrow> None
                    | Some newtarget \<Rightarrow>
                        (let (t, nnf3) = EM_Step host radius newsource newtarget nnf2 True
                         in Some (nnf3, gen2, Some t)))
              else
                (let newsource = pyramid ! nat level;
                     newtarget = clone target;
                     (t, nnf3) = EM_Step host radius newsource newtarget nnf2 False
                 in Some (nnf3, gen2, Some t))))"

definition ExpectationMaximization ::
  "KritaHost \<Rightarrow> int \<Rightarrow> MaskedImage list \<Rightarrow> int \<Rightarrow> NearestNeighborField \<times> mt19937 \<Rightarrow>
     (NearestNeighborField \<times> mt19937 \<times> MaskedImage option) option" where
  "ExpectationMaximization host radius pyramid level s =
     fold (EM_iteration host radius pyramid level (nnf_input (fst s)))
          [1 .. min (2 * level) 4] (Some (fst s, snd s, None))"

text \<open>
  \<^verbatim>\<open>initialize(const NearestNeighborField& nnf)\<close>: the field of the finer level from the
  field of the coarser one. The two scales are quotients of \<^verbatim>\<open>int\<close>s; a division by zero
  is the result \<open>None\<close>.
\<close>

definition initialize_from_pixel ::
  "NearestNeighborField \<Rightarrow> int \<Rightarrow> int \<Rightarrow> int \<Rightarrow> int \<Rightarrow> NearestNeighborField \<Rightarrow> NearestNeighborField" where
  "initialize_from_pixel coarse xscale yscale y x nnf =
     (let xlow = min (x sdiv xscale) (width (imSize coarse) - 1);
          ylow = min (y sdiv yscale) (height (imSize coarse) - 1)
      in set_field nnf x y
           \<lparr>nnx = nnx (field coarse xlow ylow) * xscale,
            nny = nny (field coarse xlow ylow) * yscale,
            nndistance = MAX_DIST\<rparr>)"

definition initialize_from ::
  "NearestNeighborField \<Rightarrow> NearestNeighborField \<times> mt19937 \<Rightarrow> (NearestNeighborField \<times> mt19937) option" where
  "initialize_from coarse s =
     (let nnf = fst s in
      if width (imSize coarse) = 0 \<or> height (imSize coarse) = 0 then None
      else
        (let xscale = width (imSize nnf) sdiv width (imSize coarse);
             yscale = height (imSize nnf) sdiv height (imSize coarse)
         in if (xscale = 0 \<or> yscale = 0) \<and> 0 < width (imSize nnf) \<and> 0 < height (imSize nnf)
            then None
            else Some (initialize
                   (fold (\<lambda>y n1. fold (initialize_from_pixel coarse xscale yscale y)
                                       [0 .. width (imSize nnf) - 1] n1)
                         [0 .. height (imSize nnf) - 1] nnf,
                    snd s))))"

text \<open>
  \<^verbatim>\<open>Inpaint::patch\<close>. One round of the loop over the levels, from \<^verbatim>\<open>maxlevel-1\<close> down to
  1; the state is the target, the field of the level before (\<open>None\<close> before the first
  round) and the generator.
\<close>

definition patch_level ::
  "KritaHost \<Rightarrow> int \<Rightarrow> MaskedImage list \<Rightarrow> int \<Rightarrow>
     (MaskedImage \<times> NearestNeighborField option \<times> mt19937) option \<Rightarrow>
     (MaskedImage \<times> NearestNeighborField option \<times> mt19937) option" where
  "patch_level host radius pyramid level st =
     (case st of
        None \<Rightarrow> None
      | Some (target, prev, gen) \<Rightarrow>
          (let source = pyramid ! nat level;
               maxlevel = int (length pyramid);
               new_nnf = NearestNeighborField_new target source radius;
               started =
                 (if level = maxlevel - 1 then Some (randomize (new_nnf, gen))
                  else (case prev of
                          None \<Rightarrow> None
                        | Some nnf \<Rightarrow> initialize_from nnf (new_nnf, gen)))
           in case started of
                None \<Rightarrow> None
              | Some s \<Rightarrow>
                  (case ExpectationMaximization host radius pyramid level s of
                     None \<Rightarrow> None
                   | Some (nnf', gen', None) \<Rightarrow> None
                   | Some (nnf', gen', Some target') \<Rightarrow> Some (target', Some nnf', gen'))))"

definition patch ::
  "KritaHost \<Rightarrow> MaskedImage \<Rightarrow> int \<Rightarrow> mt19937 \<Rightarrow> (MaskedImage \<times> mt19937) option" where
  "patch host initial radius gen =
     (case pyramid_loop host radius (clone initial) [initial] of
        None \<Rightarrow> None
      | Some (source, pyramid) \<Rightarrow>
          (let maxlevel = int (length pyramid);
               target = clearMask (clone source)
           in case fold (patch_level host radius pyramid) (rev [1 .. maxlevel - 1])
                     (Some (target, None, gen)) of
                None \<Rightarrow> None
              | Some (target', nnf, gen') \<Rightarrow> Some (target', gen')))"

section \<open>The patch distance as the specification words it\<close>

text \<open>
  The patch distance in the words of the specification. \<open>distance_sq\<close> is the sum over
  the channels of \<open>(self[x,y,c] - other[xo,yo,c])\<^sup>2\<close>, over the integers. The cost of one
  offset is the cap \<open>ssdmax\<close> when the target sample or the source sample is out of
  bounds or masked in its image, and \<open>distance_sq\<close> otherwise.
\<close>

definition distance_sq :: "MaskedImage \<Rightarrow> int \<Rightarrow> int \<Rightarrow> MaskedImage \<Rightarrow> int \<Rightarrow> int \<Rightarrow> int" where
  "distance_sq m x y other xo yo =
     (\<Sum>c = 0 ..< channelCount (imageDev m).
        (uint (getImagePixelU8 m x y c) - uint (getImagePixelU8 other xo yo c))\<^sup>2)"

definition in_bounds :: "MaskedImage \<Rightarrow> int \<Rightarrow> int \<Rightarrow> bool" where
  "in_bounds m x y = (0 \<le> x \<and> x < width (imageSize m) \<and> 0 \<le> y \<and> y < height (imageSize m))"

definition offset_cost ::
  "NearestNeighborField \<Rightarrow> int \<Rightarrow> int \<Rightarrow> int \<Rightarrow> int \<Rightarrow> int \<Rightarrow> int \<Rightarrow> int" where
  "offset_cost nnf x y xp yp dx dy =
     (if in_bounds (nnf_input nnf) (x + dx) (y + dy) \<and> in_bounds (nnf_output nnf) (xp + dx) (yp + dy)
         \<and> \<not> isMasked (nnf_input nnf) (x + dx) (y + dy)
         \<and> \<not> isMasked (nnf_output nnf) (xp + dx) (yp + dy)
      then distance_sq (nnf_input nnf) (x + dx) (y + dy) (nnf_output nnf) (xp + dx) (yp + dy)
      else ssdmax)"

section \<open>Predicates on the entries of a field\<close>

text \<open>
  The grid of a field is \<open>imSize\<close>, the size of its input (the target image). An entry is
  in the source when its coordinates are coordinates of the output (the source image) and
  its distance is in \<open>[0, MAX_DIST]\<close>; it is near the source when its coordinates are at
  most \<open>patchSize\<close> outside; it is in the target when its coordinates are coordinates of
  the grid.
\<close>

definition entry_in_source :: "NearestNeighborField \<Rightarrow> NNPixel \<Rightarrow> bool" where
  "entry_in_source nnf p =
     (0 \<le> nnx p \<and> nnx p < width (imageSize (nnf_output nnf)) \<and>
      0 \<le> nny p \<and> nny p < height (imageSize (nnf_output nnf)) \<and>
      0 \<le> nndistance p \<and> nndistance p \<le> MAX_DIST)"

definition entries_in_source :: "NearestNeighborField \<Rightarrow> bool" where
  "entries_in_source nnf =
     (\<forall>x \<in> {0 ..< width (imSize nnf)}. \<forall>y \<in> {0 ..< height (imSize nnf)}.
        entry_in_source nnf (field nnf x y))"

definition entry_near_source :: "NearestNeighborField \<Rightarrow> NNPixel \<Rightarrow> bool" where
  "entry_near_source nnf p =
     (- patchSize nnf \<le> nnx p \<and> nnx p < width (imageSize (nnf_output nnf)) + patchSize nnf \<and>
      - patchSize nnf \<le> nny p \<and> nny p < height (imageSize (nnf_output nnf)) + patchSize nnf \<and>
      0 \<le> nndistance p \<and> nndistance p \<le> MAX_DIST)"

definition entries_near_source :: "NearestNeighborField \<Rightarrow> bool" where
  "entries_near_source nnf =
     (\<forall>x \<in> {0 ..< width (imSize nnf)}. \<forall>y \<in> {0 ..< height (imSize nnf)}.
        entry_near_source nnf (field nnf x y))"

definition entry_in_target :: "NearestNeighborField \<Rightarrow> NNPixel \<Rightarrow> bool" where
  "entry_in_target nnf p =
     (0 \<le> nnx p \<and> nnx p < width (imSize nnf) \<and> 0 \<le> nny p \<and> nny p < height (imSize nnf) \<and>
      0 \<le> nndistance p \<and> nndistance p \<le> MAX_DIST)"

definition grid :: "NearestNeighborField \<Rightarrow> (int \<times> int) list" where
  "grid nnf =
     concat (map (\<lambda>y. map (\<lambda>x. (x, y)) [0 .. width (imSize nnf) - 1]) [0 .. height (imSize nnf) - 1])"

text \<open>
  \<open>same_images\<close>: two fields over the same images, radius and grid. \<open>wf_nnf\<close>: the
  radius is between 0 and 7355, the largest radius at which the product
  \<open>MAX_DIST \<cdot> (2R+1)\<^sup>2 \<cdot> ssdmax\<close> fits a 64-bit \<^verbatim>\<open>long\<close>, and the target has at most ten
  channels, the number for which \<open>ssdmax\<close> is the largest sum of squared differences.
\<close>

definition same_images :: "NearestNeighborField \<Rightarrow> NearestNeighborField \<Rightarrow> bool" where
  "same_images n' n =
     (patchSize n' = patchSize n \<and> nnf_input n' = nnf_input n \<and>
      nnf_output n' = nnf_output n \<and> imSize n' = imSize n)"

definition wf_nnf :: "NearestNeighborField \<Rightarrow> bool" where
  "wf_nnf nnf =
     (0 \<le> patchSize nnf \<and> patchSize nnf \<le> 7355 \<and> channelCount (imageDev (nnf_input nnf)) \<le> 10)"

definition near_state :: "NearestNeighborField \<times> mt19937 \<Rightarrow> bool" where
  "near_state s = (wf_nnf (fst s) \<and> entries_near_source (fst s))"

definition target_state :: "NearestNeighborField \<Rightarrow> NearestNeighborField \<times> mt19937 \<Rightarrow> bool" where
  "target_state n s =
     (same_images (fst s) n \<and>
      (\<forall>c \<in> set (grid n). entry_in_target n (field (fst s) (fst c) (snd c))))"

text \<open>
  \<open>cached\<close>: the cached size of a masked image is the exact bounds of its image device,
  as it is after the constructor, \<^verbatim>\<open>clone\<close> and \<^verbatim>\<open>downsample2x\<close>. \<open>same_extent\<close>: two
  masked images of the same cached size and the same bounds.
\<close>

definition cached :: "MaskedImage \<Rightarrow> bool" where
  "cached m = (imageSize m = exactBounds (imageDev m))"

definition same_extent :: "MaskedImage \<Rightarrow> MaskedImage \<Rightarrow> bool" where
  "same_extent t' t = (imageSize t' = imageSize t \<and> exactBounds (imageDev t') = exactBounds (imageDev t))"

text \<open>
  The weights of the voting step are entries of the similarity table; for the table of
  the constructor they lie strictly between 0 and 1.
\<close>

definition similarity_below_one :: "NearestNeighborField \<Rightarrow> bool" where
  "similarity_below_one nnf = (\<forall>d. 0 \<le> similarity nnf d \<and> similarity nnf d < 1)"

section \<open>Example inputs\<close>

text \<open>
  Two grey images with an alpha channel, two pixels wide and one pixel high. The target
  is \<open>(255, 0)\<close> and has no hole; the source is \<open>(0, 0)\<close> and its right pixel is a hole
  (mask byte below 128).
\<close>

definition row_rect :: QRect where
  "row_rect = \<lparr>rect_x = 0, rect_y = 0, width = 2, height = 1\<rparr>"

definition row_target :: MaskedImage where
  "row_target =
     MaskedImage_new
       \<lparr>channels = [COLOR, ALPHA], exactBounds = row_rect,
        rawData = (\<lambda>x y. if x = 0 \<and> y = 0 then [255, 255] else if x = 1 \<and> y = 0 then [0, 255] else [0, 0])\<rparr>
       \<lparr>channels = [ALPHA], exactBounds = row_rect,
        rawData = (\<lambda>x y. if (x = 0 \<or> x = 1) \<and> y = 0 then [255] else [0])\<rparr>"

definition row_source :: MaskedImage where
  "row_source =
     MaskedImage_new
       \<lparr>channels = [COLOR, ALPHA], exactBounds = row_rect,
        rawData = (\<lambda>x y. if (x = 0 \<or> x = 1) \<and> y = 0 then [0, 255] else [0, 0])\<rparr>
       \<lparr>channels = [ALPHA], exactBounds = row_rect,
        rawData = (\<lambda>x y. if x = 0 \<and> y = 0 then [255] else [0])\<rparr>"

definition row_nnf :: NearestNeighborField where
  "row_nnf = NearestNeighborField_new row_target row_source 1"

text \<open>The generator whose draws are all zero.\<close>

definition zero_gen :: mt19937 where
  "zero_gen = (\<lambda>n. 0, 0)"

text \<open>
  The same two images stood on end: one pixel wide and two pixels high. The target is
  \<open>255\<close> above \<open>0\<close>; the source is \<open>0\<close> and its lower pixel is a hole. \<open>col_start\<close> is
  the field after \<^verbatim>\<open>randomize\<close> under the generator whose fourth draw is one and whose
  other draws are zero.
\<close>

definition col_rect :: QRect where
  "col_rect = \<lparr>rect_x = 0, rect_y = 0, width = 1, height = 2\<rparr>"

definition col_target :: MaskedImage where
  "col_target =
     MaskedImage_new
       \<lparr>channels = [COLOR, ALPHA], exactBounds = col_rect,
        rawData = (\<lambda>x y. if x = 0 \<and> y = 0 then [255, 255] else if x = 0 \<and> y = 1 then [0, 255] else [0, 0])\<rparr>
       \<lparr>channels = [ALPHA], exactBounds = col_rect,
        rawData = (\<lambda>x y. if x = 0 \<and> (y = 0 \<or> y = 1) then [255] else [0])\<rparr>"

definition col_source :: MaskedImage where
  "col_source =
     MaskedImage_new
       \<lparr>channels = [COLOR, ALPHA], exactBounds = col_rect,
        rawData = (\<lambda>x y. if x = 0 \<and> (y = 0 \<or> y = 1) then [0, 255] else [0, 0])\<rparr>
       \<lparr>channels = [ALPHA], exactBounds = col_rect,
        rawData = (\<lambda>x y. if x = 0 \<and> y = 0 then [255] else [0])\<rparr>"

definition col_nnf :: NearestNeighborField where
  "col_nnf = NearestNeighborField_new col_target col_source 1"

definition col_gen :: mt19937 where
  "col_gen = (\<lambda>n. if n = 3 then 1 else 0, 0)"

definition col_start :: NearestNeighborField where
  "col_start = fst (randomize (col_nnf, col_gen))"

text \<open>
  A grey image of three by three pixels, all of them \<open>128\<close> and opaque, with one hole in
  the middle.
\<close>

definition square_rect :: QRect where
  "square_rect = \<lparr>rect_x = 0, rect_y = 0, width = 3, height = 3\<rparr>"

definition square_initial :: MaskedImage where
  "square_initial =
     MaskedImage_new
       \<lparr>channels = [COLOR, ALPHA], exactBounds = square_rect,
        rawData = (\<lambda>x y. if 0 \<le> x \<and> x < 3 \<and> 0 \<le> y \<and> y < 3 then [128, 255] else [0, 0])\<rparr>
       \<lparr>channels = [ALPHA], exactBounds = square_rect,
        rawData = (\<lambda>x y. if x = 1 \<and> y = 1 then [0]
                       else if 0 \<le> x \<and> x < 3 \<and> 0 \<le> y \<and> y < 3 then [255] else [0])\<rparr>"

text \<open>
  An example host. Its mixing operation is modelled from the spec (the four pixels are
  averaged with integer weights that sum to 255); its filter repeats pixels; its
  conversions scale a byte to \<open>[0, 1]\<close> and back.
\<close>

definition weighted_average :: KoMixColorsOp where
  "weighted_average pixels weights =
     map (\<lambda>c. word_of_int (sum_list (map (\<lambda>pw. snd pw * uint (fst pw ! c)) (zip pixels weights)) div 255))
         [0 ..< length (pixels ! 0)]"

definition example_host :: KritaHost where
  "example_host =
     \<lparr>mixColorsOp = (\<lambda>cs. weighted_average),
      bilinear = (\<lambda>dev xscale yscale x y. rawData dev (x sdiv xscale) (y sdiv yscale)),
      normalisedChannelsValue = map (\<lambda>b. Some (real_of_int (uint b) / 255)),
      fromNormalisedChannelsValue =
        map (\<lambda>v. case v of None \<Rightarrow> 0 | Some r \<Rightarrow> word_of_int \<lfloor>r * 255\<rfloor>)\<rparr>"

text \<open>
  A flat grey image of four by three pixels without a hole, and the field over it that
  links every pixel to itself, each entry with its own distance.
\<close>

definition flat_rect :: QRect where
  "flat_rect = \<lparr>rect_x = 0, rect_y = 0, width = 4, height = 3\<rparr>"

definition flat :: MaskedImage where
  "flat =
     MaskedImage_new
       \<lparr>channels = [COLOR, ALPHA], exactBounds = flat_rect,
        rawData = (\<lambda>x y. if 0 \<le> x \<and> x < 4 \<and> 0 \<le> y \<and> y < 3 then [128, 255] else [0, 0])\<rparr>
       \<lparr>channels = [ALPHA], exactBounds = flat_rect,
        rawData = (\<lambda>x y. if 0 \<le> x \<and> x < 4 \<and> 0 \<le> y \<and> y < 3 then [255] else [0])\<rparr>"

definition flat_base :: NearestNeighborField where
  "flat_base = NearestNeighborField_new flat flat 1"

definition flat_nnf :: NearestNeighborField where
  "flat_nnf =
     flat_base\<lparr>field := (\<lambda>x y. \<lparr>nnx = x, nny = y, nndistance = distance flat_base x y x y\<rparr>)\<rparr>"

text \<open>
  Two images of three by three pixels with eleven byte channels, ten colours and alpha,
  without holes: every channel of every pixel is \<open>255\<close> in the target and \<open>0\<close> in the
  source.
\<close>

definition wide_device :: "quint8 \<Rightarrow> KisPaintDevice" where
  "wide_device v =
     \<lparr>channels = replicate 10 COLOR @ [ALPHA], exactBounds = square_rect,
      rawData = (\<lambda>x y. replicate 11 v)\<rparr>"

definition wide_mask :: KisPaintDevice where
  "wide_mask = \<lparr>channels = [ALPHA], exactBounds = square_rect, rawData = (\<lambda>x y. [255])\<rparr>"

definition wide_nnf :: NearestNeighborField where
  "wide_nnf =
     NearestNeighborField_new (MaskedImage_new (wide_device 255) wide_mask)
       (MaskedImage_new (wide_device 0) wide_mask) 1"

section \<open>Properties of the patch distance\<close>

text \<open>
  The similarity table is a table of floats; it has no part in the integer computations
  evaluated below.
\<close>

declare init_similarity_curve_def [code del]

text \<open>A value inside the range of its type is not changed by the wrap-around.\<close>

lemma wrap_int_id: "- (2 ^ 31) \<le> v \<Longrightarrow> v < 2 ^ 31 \<Longrightarrow> wrap_int v = v"
  by (simp add: wrap_int_def)

lemma wrap_long_id: "- (2 ^ 63) \<le> v \<Longrightarrow> v < 2 ^ 63 \<Longrightarrow> wrap_long v = v"
  by (simp add: wrap_long_def)

text \<open>Two nested loops are one loop over the cells, row by row.\<close>

lemma fold_rows_cols:
  "fold (\<lambda>y s. fold (g y) xs s) ys s =
   fold (\<lambda>c. g (snd c) (fst c)) (concat (map (\<lambda>y. map (\<lambda>x. (x, y)) xs) ys)) s"
proof (induction ys arbitrary: s)
  case Nil
  then show ?case by simp
next
  case (Cons y ys)
  have "fold (\<lambda>c. g (snd c) (fst c)) (map (\<lambda>x. (x, y)) xs) s = fold (g y) xs s"
    by (simp add: fold_map comp_def)
  then show ?case using Cons.IH by simp
qed

lemma sum_list_cells:
  "(\<Sum>c\<leftarrow>concat (map (\<lambda>y. map (\<lambda>x. (x, y)) xs) ys). f (fst c) (snd c)) =
   (\<Sum>y\<leftarrow>ys. \<Sum>x\<leftarrow>xs. (f x y :: int))"
  by (induction ys) (simp_all add: comp_def)

lemma length_cells:
  "length (concat (map (\<lambda>y. map (\<lambda>x. (x, y)) xs) ys)) = length xs * length ys"
  by (induction ys) simp_all

lemma sum_list_upto: "sum_list (map f [i..j]) = (\<Sum>k = i..j. f k)"
  by (simp add: sum_list_distinct_conv_sum_set)

text \<open>
  The squared difference of two bytes is at most \<open>255\<^sup>2 = 65025\<close>, so the \<^verbatim>\<open>int\<close> sum of
  \<^verbatim>\<open>MaskedImage::distance\<close> does not wrap on an image of at most ten channels, and is
  the \<open>distance_sq\<close> of the specification there.
\<close>

lemma sq_diff_bounds:
  "0 \<le> (uint (a :: quint8) - uint (b :: quint8)) * (uint a - uint b) \<and>
   (uint a - uint b) * (uint a - uint b) \<le> 65025"
proof -
  let ?v = "uint a - uint b"
  have "uint a < 256" "uint b < 256" "0 \<le> uint a" "0 \<le> uint b"
    using uint_lt2p [of a] uint_lt2p [of b] by simp_all
  then have "\<bar>?v\<bar> \<le> 255" by linarith
  then have "\<bar>?v\<bar> * \<bar>?v\<bar> \<le> 255 * 255"
    by (intro mult_mono) simp_all
  then have "?v * ?v \<le> 255 * 255"
    by simp
  moreover have "0 \<le> ?v * ?v" by simp
  ultimately show ?thesis by simp
qed

lemma fold_sq_eq:
  assumes "0 \<le> (a::int)" and "a + 65025 * int (length cs) < 2 ^ 31"
  shows "fold (\<lambda>chan dsq. let v = uint (f chan :: quint8) - uint (g chan :: quint8)
                           in wrap_int (dsq + v * v)) cs a =
         a + (\<Sum>c\<leftarrow>cs. (uint (f c) - uint (g c)) * (uint (f c) - uint (g c)))"
  using assms
proof (induction cs arbitrary: a)
  case Nil
  then show ?case by simp
next
  case (Cons c cs)
  define q where "q = (uint (f c) - uint (g c)) * (uint (f c) - uint (g c))"
  have b: "0 \<le> q" "q \<le> 65025"
    using sq_diff_bounds [of "f c" "g c"] unfolding q_def by blast+
  have "- (2 ^ 31) \<le> a + q" "a + q < 2 ^ 31"
    using b Cons.prems by simp_all
  then have w: "wrap_int (a + q) = a + q"
    by (rule wrap_int_id)
  have "0 \<le> a + q" "a + q + 65025 * int (length cs) < 2 ^ 31"
    using b Cons.prems by simp_all
  from Cons.IH [OF this] show ?case
    unfolding q_def [symmetric] using w by (simp add: Let_def q_def [symmetric])
qed

lemma MaskedImage_distance_eq:
  assumes "channelCount (imageDev m) \<le> 10"
  shows "MaskedImage_distance m x y other xo yo = distance_sq m x y other xo yo"
proof -
  have "(0::int) + 65025 * int (length [0 ..< channelCount (imageDev m)]) < 2 ^ 31"
    using assms by simp
  from fold_sq_eq [OF _ this, of "imageCache m x y" "imageCache other xo yo"]
  show ?thesis
    by (simp add: MaskedImage_distance_def distance_sq_def getImagePixelU8_def
        interv_sum_list_conv_sum_set_nat power2_eq_square)
qed

lemma distance_sq_bounds:
  "0 \<le> distance_sq m x y other xo yo \<and>
   distance_sq m x y other xo yo \<le> 65025 * int (channelCount (imageDev m))"
proof -
  let ?n = "channelCount (imageDev m)"
  let ?f = "\<lambda>c. (uint (getImagePixelU8 m x y c) - uint (getImagePixelU8 other xo yo c))\<^sup>2"
  have b: "0 \<le> ?f c" "?f c \<le> 65025" for c
    using sq_diff_bounds [of "getImagePixelU8 m x y c" "getImagePixelU8 other xo yo c"]
    by (simp_all add: power2_eq_square)
  have "sum ?f {0 ..< ?n} \<le> (\<Sum>c = 0 ..< ?n. 65025)"
    by (intro sum_mono b)
  moreover have "0 \<le> sum ?f {0 ..< ?n}"
    by (intro sum_nonneg b)
  ultimately show ?thesis
    by (simp add: distance_sq_def)
qed

lemma offset_cost_bounds:
  assumes "channelCount (imageDev (nnf_input nnf)) \<le> 10"
  shows "0 \<le> offset_cost nnf x y xp yp dx dy \<and> offset_cost nnf x y xp yp dx dy \<le> ssdmax"
  using distance_sq_bounds [of "nnf_input nnf" "x + dx" "y + dy" "nnf_output nnf" "xp + dx" "yp + dy"] assms
  by (auto simp: offset_cost_def ssdmax_def)

text \<open>
  One step of the loops of \<^verbatim>\<open>distance\<close> adds the cost of its offset to \<^verbatim>\<open>distance\<close> and
  \<open>ssdmax\<close> to \<^verbatim>\<open>wsum\<close>, as long as \<^verbatim>\<open>wsum\<close> stays below \<open>2\<^sup>6\<^sup>3\<close>.
\<close>

lemma distance_body_eq:
  assumes ch: "channelCount (imageDev (nnf_input nnf)) \<le> 10"
    and acc: "0 \<le> fst acc" "fst acc \<le> snd acc" "snd acc + ssdmax < 2 ^ 63"
  shows "distance_body nnf x y xp yp dy dx acc =
     (fst acc + offset_cost nnf x y xp yp dx dy, snd acc + ssdmax)"
proof -
  have w1: "wrap_long (snd acc + ssdmax) = snd acc + ssdmax"
    using acc by (intro wrap_long_id) (simp_all add: ssdmax_def)
  have w2: "wrap_long (fst acc + ssdmax) = fst acc + ssdmax"
    using acc by (intro wrap_long_id) (simp_all add: ssdmax_def)
  have w3: "wrap_long (fst acc + MaskedImage_distance (nnf_input nnf) a b (nnf_output nnf) c d) =
            fst acc + distance_sq (nnf_input nnf) a b (nnf_output nnf) c d" for a b c d
  proof -
    have "0 \<le> distance_sq (nnf_input nnf) a b (nnf_output nnf) c d"
      "distance_sq (nnf_input nnf) a b (nnf_output nnf) c d \<le> ssdmax"
      using distance_sq_bounds [of "nnf_input nnf" a b "nnf_output nnf" c d] ch
      by (simp_all add: ssdmax_def)
    then show ?thesis
      unfolding MaskedImage_distance_eq [OF ch]
      using acc by (intro wrap_long_id) simp_all
  qed
  show ?thesis
    by (auto simp: distance_body_def offset_cost_def in_bounds_def Let_def w1 w2 w3)
qed

lemma fold_distance_body:
  assumes ch: "channelCount (imageDev (nnf_input nnf)) \<le> 10"
    and acc: "0 \<le> fst acc" "fst acc \<le> snd acc" "snd acc + ssdmax * int (length cs) < 2 ^ 63"
  shows "fold (\<lambda>c. distance_body nnf x y xp yp (snd c) (fst c)) cs acc =
     (fst acc + (\<Sum>c\<leftarrow>cs. offset_cost nnf x y xp yp (fst c) (snd c)),
      snd acc + ssdmax * int (length cs))"
  using acc
proof (induction cs arbitrary: acc)
  case Nil
  then show ?case by simp
next
  case (Cons c cs)
  let ?k = "offset_cost nnf x y xp yp (fst c) (snd c)"
  let ?acc = "(fst acc + ?k, snd acc + ssdmax)"
  have k: "0 \<le> ?k" "?k \<le> ssdmax"
    using offset_cost_bounds [OF ch, of x y xp yp "fst c" "snd c"] by simp_all
  have len: "0 \<le> ssdmax * int (length cs)" by (simp add: ssdmax_def)
  have room: "snd acc + ssdmax + ssdmax * int (length cs) < 2 ^ 63"
    using Cons.prems(3) by (simp add: algebra_simps)
  then have "snd acc + ssdmax < 2 ^ 63" using len by linarith
  from distance_body_eq [OF ch Cons.prems(1,2) this]
  have step: "distance_body nnf x y xp yp (snd c) (fst c) acc = ?acc" .
  have "0 \<le> fst ?acc" "fst ?acc \<le> snd ?acc" "snd ?acc + ssdmax * int (length cs) < 2 ^ 63"
    using k Cons.prems(1,2) room by simp_all
  from Cons.IH [OF this] show ?case
    by (simp add: step algebra_simps)
qed

text \<open>
  For a radius up to 7355 the sum \<^verbatim>\<open>wsum\<close> and the product \<^verbatim>\<open>MAX_DIST*distance\<close> stay
  below \<open>2\<^sup>6\<^sup>3\<close>: the product is at most \<open>65535 \<cdot> 650250 \<cdot> 14711\<^sup>2\<close>.
\<close>

lemma wsum_fits_long:
  assumes "0 \<le> (R::int)" and "R \<le> 7355"
  shows "MAX_DIST * ((2 * R + 1) * (2 * R + 1) * ssdmax) < 2 ^ 63"
proof -
  have "2 * R + 1 \<le> 14711" "0 \<le> 2 * R + 1" using assms by simp_all
  then have "(2 * R + 1) * (2 * R + 1) \<le> 14711 * 14711"
    by (intro mult_mono) simp_all
  then show ?thesis by (simp add: MAX_DIST_def ssdmax_def)
qed

lemma distance_sums_eq_room:
  assumes R: "0 \<le> patchSize nnf"
    and room: "(2 * patchSize nnf + 1) * (2 * patchSize nnf + 1) * ssdmax < 2 ^ 63"
    and ch: "channelCount (imageDev (nnf_input nnf)) \<le> 10"
  shows "distance_sums nnf x y xp yp =
     ((\<Sum>dy = - patchSize nnf .. patchSize nnf. \<Sum>dx = - patchSize nnf .. patchSize nnf.
          offset_cost nnf x y xp yp dx dy),
      (2 * patchSize nnf + 1) * (2 * patchSize nnf + 1) * ssdmax)"
proof -
  let ?R = "patchSize nnf"
  let ?cs = "concat (map (\<lambda>dy. map (\<lambda>dx. (dx, dy)) [- ?R .. ?R]) [- ?R .. ?R])"
  have len: "int (length ?cs) = (2 * ?R + 1) * (2 * ?R + 1)"
    using R by (simp add: length_cells nat_mult_distrib)
  have room': "snd (0::int, 0::int) + ssdmax * int (length ?cs) < 2 ^ 63"
    using room by (simp add: len algebra_simps)
  have "distance_sums nnf x y xp yp =
        fold (\<lambda>c. distance_body nnf x y xp yp (snd c) (fst c)) ?cs (0, 0)"
    unfolding distance_sums_def by (rule fold_rows_cols)
  also have "\<dots> = (fst (0::int, 0::int) + (\<Sum>c\<leftarrow>?cs. offset_cost nnf x y xp yp (fst c) (snd c)),
                   snd (0::int, 0::int) + ssdmax * int (length ?cs))"
    by (rule fold_distance_body [OF ch _ _ room']) simp_all
  finally show ?thesis
    by (simp add: sum_list_cells sum_list_upto len algebra_simps)
qed

lemma distance_sums_eq:
  assumes R: "0 \<le> patchSize nnf" and Rm: "patchSize nnf \<le> 7355"
    and ch: "channelCount (imageDev (nnf_input nnf)) \<le> 10"
  shows "distance_sums nnf x y xp yp =
     ((\<Sum>dy = - patchSize nnf .. patchSize nnf. \<Sum>dx = - patchSize nnf .. patchSize nnf.
          offset_cost nnf x y xp yp dx dy),
      (2 * patchSize nnf + 1) * (2 * patchSize nnf + 1) * ssdmax)"
proof -
  let ?R = "patchSize nnf"
  have "0 \<le> (2 * ?R + 1) * (2 * ?R + 1) * ssdmax"
    using R by (simp add: ssdmax_def)
  then have "(2 * ?R + 1) * (2 * ?R + 1) * ssdmax < 2 ^ 63"
    using wsum_fits_long [OF R Rm] by (simp add: MAX_DIST_def)
  from distance_sums_eq_room [OF R this ch] show ?thesis .
qed

lemma distance_sums_bounds:
  assumes R: "0 \<le> patchSize nnf" and Rm: "patchSize nnf \<le> 7355"
    and ch: "channelCount (imageDev (nnf_input nnf)) \<le> 10"
  shows "0 \<le> fst (distance_sums nnf x y xp yp) \<and>
         fst (distance_sums nnf x y xp yp) \<le> snd (distance_sums nnf x y xp yp) \<and>
         0 < snd (distance_sums nnf x y xp yp) \<and>
         MAX_DIST * snd (distance_sums nnf x y xp yp) < 2 ^ 63"
proof -
  let ?R = "patchSize nnf"
  let ?c = "\<lambda>dx dy. offset_cost nnf x y xp yp dx dy"
  have b: "0 \<le> ?c dx dy" "?c dx dy \<le> ssdmax" for dx dy
    using offset_cost_bounds [OF ch] by simp_all
  have "(\<Sum>dy = - ?R .. ?R. \<Sum>dx = - ?R .. ?R. ?c dx dy) \<le> (\<Sum>dy = - ?R .. ?R. \<Sum>dx = - ?R .. ?R. ssdmax)"
    by (intro sum_mono b)
  also have "\<dots> = (2 * ?R + 1) * (2 * ?R + 1) * ssdmax"
    using R by simp
  finally have up: "(\<Sum>dy = - ?R .. ?R. \<Sum>dx = - ?R .. ?R. ?c dx dy) \<le> (2 * ?R + 1) * (2 * ?R + 1) * ssdmax" .
  have lo: "0 \<le> (\<Sum>dy = - ?R .. ?R. \<Sum>dx = - ?R .. ?R. ?c dx dy)"
    by (intro sum_nonneg b)
  have pos: "0 < (2 * ?R + 1) * (2 * ?R + 1) * ssdmax"
    using R by (simp add: ssdmax_def)
  show ?thesis
    using up lo pos wsum_fits_long [OF R Rm] by (simp add: distance_sums_eq [OF R Rm ch])
qed

text \<open>
  So the product \<^verbatim>\<open>MAX_DIST*distance\<close> of the last line is between 0 and \<open>2\<^sup>6\<^sup>3\<close>, the
  quotient is between 0 and \<open>MAX_DIST\<close>, and neither the \<^verbatim>\<open>long\<close> arithmetic nor the cast
  to \<^verbatim>\<open>int\<close> changes a value.
\<close>

lemma distance_fits_long:
  assumes R: "0 \<le> patchSize nnf" and Rm: "patchSize nnf \<le> 7355"
    and ch: "channelCount (imageDev (nnf_input nnf)) \<le> 10"
  shows "0 \<le> MAX_DIST * fst (distance_sums nnf x y xp yp) \<and>
         MAX_DIST * fst (distance_sums nnf x y xp yp) < 2 ^ 63"
proof -
  let ?s = "distance_sums nnf x y xp yp"
  from distance_sums_bounds [OF R Rm ch, of x y xp yp]
  have f: "0 \<le> fst ?s" "fst ?s \<le> snd ?s" "MAX_DIST * snd ?s < 2 ^ 63" by simp_all
  have "MAX_DIST * fst ?s \<le> MAX_DIST * snd ?s"
    using f by (simp add: MAX_DIST_def)
  with f show ?thesis by (simp add: MAX_DIST_def)
qed

lemma distance_eq_div:
  assumes R: "0 \<le> patchSize nnf" and Rm: "patchSize nnf \<le> 7355"
    and ch: "channelCount (imageDev (nnf_input nnf)) \<le> 10"
  shows "distance nnf x y xp yp =
           (MAX_DIST * fst (distance_sums nnf x y xp yp)) div snd (distance_sums nnf x y xp yp)
         \<and> 0 \<le> distance nnf x y xp yp \<and> distance nnf x y xp yp \<le> MAX_DIST"
proof -
  let ?s = "distance_sums nnf x y xp yp"
  let ?q = "(MAX_DIST * fst ?s) div snd ?s"
  from distance_sums_bounds [OF R Rm ch, of x y xp yp]
  have f: "0 \<le> fst ?s" "fst ?s \<le> snd ?s" "0 < snd ?s" by simp_all
  from distance_fits_long [OF R Rm ch, of x y xp yp]
  have p: "0 \<le> MAX_DIST * fst ?s" "MAX_DIST * fst ?s < 2 ^ 63" by simp_all
  have w1: "wrap_long (MAX_DIST * fst ?s) = MAX_DIST * fst ?s"
    using p by (intro wrap_long_id) simp_all
  have sd: "(MAX_DIST * fst ?s) sdiv snd ?s = ?q"
    using f p by (simp add: signed_divide_int_def sgn_if)
  have "MAX_DIST * fst ?s \<le> MAX_DIST * snd ?s"
    using f by (simp add: MAX_DIST_def)
  then have "?q \<le> (MAX_DIST * snd ?s) div snd ?s"
    using f(3) zdiv_mono1 by blast
  then have hi: "?q \<le> MAX_DIST" using f(3) by simp
  have lo: "0 \<le> ?q"
    using f p by (simp add: pos_imp_zdiv_nonneg_iff)
  have w2: "wrap_long ?q = ?q"
    using lo hi by (intro wrap_long_id) (simp_all add: MAX_DIST_def)
  have w3: "wrap_int ?q = ?q"
    using lo hi by (intro wrap_int_id) (simp_all add: MAX_DIST_def)
  have "distance nnf x y xp yp = ?q"
    by (simp add: distance_def Let_def w1 sd w2 w3)
  then show ?thesis using lo hi by simp
qed

lemma distance_bounds:
  assumes "0 \<le> patchSize nnf" and "patchSize nnf \<le> 7355"
    and "channelCount (imageDev (nnf_input nnf)) \<le> 10"
  shows "0 \<le> distance nnf x y xp yp \<and> distance nnf x y xp yp \<le> MAX_DIST"
  using distance_eq_div [OF assms, of x y xp yp] by simp

text \<open>
  The bound on the radius is sharp. With the radius 7356 and a candidate so far from the
  source image that every offset is capped, the two sums are \<open>14713\<^sup>2 \<cdot> 650250\<close>, the
  product \<^verbatim>\<open>MAX_DIST*distance\<close> is \<open>9224782485745353750\<close>, above \<open>2\<^sup>6\<^sup>3 - 1\<close>, and the value
  returned is negative.
\<close>

lemma distance_wraps_at_7356:
  "distance (NearestNeighborField_new row_target row_source 7356) 0 0 (- 8000) 0 = - 65514"
proof -
  let ?n = "NearestNeighborField_new row_target row_source 7356"
  have R: "patchSize ?n = 7356" by (simp add: NearestNeighborField_new_def)
  have ch: "channelCount (imageDev (nnf_input ?n)) \<le> 10"
    by (simp add: NearestNeighborField_new_def row_target_def MaskedImage_new_def
        cacheEverything_def cacheMask_def cacheImage_def cacheImageSize_def channelCount_def)
  have c: "offset_cost ?n 0 0 (- 8000) 0 dx dy = ssdmax" if "dx \<in> {- 7356 .. 7356}" for dx dy
    using that by (simp add: offset_cost_def in_bounds_def)
  have "(\<Sum>dy = - 7356 .. 7356. \<Sum>dx = - 7356 .. 7356. offset_cost ?n 0 0 (- 8000) 0 dx dy) =
        (\<Sum>dy = - 7356 .. (7356::int). \<Sum>dx = - 7356 .. (7356::int). ssdmax)"
    by (intro sum.cong refl c)
  also have "\<dots> = 14713 * 14713 * ssdmax" by simp
  finally have s: "distance_sums ?n 0 0 (- 8000) 0 = (14713 * 14713 * ssdmax, 14713 * 14713 * ssdmax)"
    using distance_sums_eq_room [of ?n 0 0 "- 8000" 0] ch
    by (simp add: R ssdmax_def)
  show ?thesis
    by (simp add: distance_def s Let_def ssdmax_def MAX_DIST_def wrap_long_def wrap_int_def
        signed_divide_int_def)
qed

lemma row_nnf_patchSize: "patchSize row_nnf = 1"
  by (simp add: row_nnf_def NearestNeighborField_new_def)

lemma row_nnf_channelCount: "channelCount (imageDev (nnf_input row_nnf)) = 2"
  by (simp add: row_nnf_def NearestNeighborField_new_def row_target_def MaskedImage_new_def
      cacheEverything_def cacheMask_def cacheImage_def cacheImageSize_def channelCount_def)

lemma wide_nnf_channelCount: "channelCount (imageDev (nnf_input wide_nnf)) = 11"
  by (simp add: wide_nnf_def NearestNeighborField_new_def wide_device_def MaskedImage_new_def
      cacheEverything_def cacheMask_def cacheImage_def cacheImageSize_def channelCount_def)

subsection \<open>Claim C8\<close>

text \<open>
  Claim C8, as the specification states it: the patch distance is \<open>(D_MAX \<cdot> sum) / wsum\<close>
  with the cap \<open>ssdmax = 10\<cdot>255\<cdot>255\<close> for an offset out of bounds or masked and the sum of
  squared differences otherwise, and the value always lies in \<open>[0, D_MAX]\<close>. The cap is
  the largest sum of squared differences of ten byte channels, and nothing in
  \<^verbatim>\<open>distance\<close> bounds the number of channels. On two images of three by three pixels with
  eleven channels, \<open>255\<close> everywhere in the target and \<open>0\<close> everywhere in the source, with
  the radius 1, each of the nine offsets of the patches at the centres adds
  \<open>11 \<cdot> 255\<^sup>2 = 715275\<close>, more than the cap, and the distance is
  \<open>65535 \<cdot> 6437475 / 5852250 = 72088\<close>, above \<open>D_MAX\<close>.
\<close>

theorem distance_above_MAX_DIST_counterexample:
  "channelCount (imageDev (nnf_input wide_nnf)) = 11 \<and>
   distance wide_nnf 1 1 1 1 = 72088 \<and>
   \<not> distance wide_nnf 1 1 1 1 \<le> MAX_DIST"
proof -
  have v: "distance wide_nnf 1 1 1 1 = 72088" by code_simp
  show ?thesis
    by (simp add: v wide_nnf_channelCount MAX_DIST_def)
qed

text \<open>
  Claim C8, amended. For a radius \<open>R\<close> from 0 to 7355 and images of at most ten byte
  channels, with a \<^verbatim>\<open>long\<close> of 64 bits, and for every pair of centre coordinates
  \<open>(x, y)\<close> and \<open>(xp, yp)\<close>: the patch distance is \<open>(D_MAX \<cdot> sum) / wsum\<close>, where
  \<open>wsum = (2R+1)\<^sup>2 \<cdot> ssdmax\<close> and each of the \<open>(2R+1)\<^sup>2\<close> offsets adds the cap
  \<open>ssdmax = 10\<cdot>255\<cdot>255\<close> when either sample is out of bounds or masked and the per-pixel
  sum of squared differences otherwise; the value lies in \<open>[0, D_MAX]\<close>. The radius 7355
  is the largest at which \<open>D_MAX \<cdot> wsum\<close> is below \<open>2\<^sup>6\<^sup>3\<close>.
\<close>

theorem distance_capped_ssd_in_range:
  assumes "0 \<le> patchSize nnf" and "patchSize nnf \<le> 7355"
    and "channelCount (imageDev (nnf_input nnf)) \<le> 10"
  shows "distance nnf x y xp yp =
           (MAX_DIST * (\<Sum>dy = - patchSize nnf .. patchSize nnf.
                         \<Sum>dx = - patchSize nnf .. patchSize nnf. offset_cost nnf x y xp yp dx dy))
           div ((2 * patchSize nnf + 1)\<^sup>2 * ssdmax)
         \<and> ssdmax = 650250
         \<and> 0 \<le> distance nnf x y xp yp \<and> distance nnf x y xp yp \<le> MAX_DIST"
  using distance_eq_div [OF assms, of x y xp yp]
  by (simp add: distance_sums_eq [OF assms] power2_eq_square ssdmax_def)

theorem distance_capped_ssd_in_range_witness:
  "0 \<le> patchSize row_nnf \<and> patchSize row_nnf \<le> 7355
   \<and> channelCount (imageDev (nnf_input row_nnf)) \<le> 10
   \<and> distance row_nnf 0 0 (- 1) 0 = 58253
   \<and> distance row_nnf 0 0 (- 1) 0 =
         (MAX_DIST * (\<Sum>dy = - 1 .. 1. \<Sum>dx = - 1 .. 1. offset_cost row_nnf 0 0 (- 1) 0 dx dy))
         div (3\<^sup>2 * ssdmax)
   \<and> 0 \<le> distance row_nnf 0 0 (- 1) 0 \<and> distance row_nnf 0 0 (- 1) 0 \<le> MAX_DIST"
proof -
  have h1: "0 \<le> patchSize row_nnf" by (simp add: row_nnf_patchSize)
  have h2: "patchSize row_nnf \<le> 7355" by (simp add: row_nnf_patchSize)
  have h3: "channelCount (imageDev (nnf_input row_nnf)) \<le> 10" by (simp add: row_nnf_channelCount)
  have v: "distance row_nnf 0 0 (- 1) 0 = 58253" by code_simp
  show ?thesis
    using distance_capped_ssd_in_range [OF h1 h2 h3, of 0 0 "- 1" 0] h1 h2 h3 v
    by (simp add: row_nnf_patchSize)
qed

section \<open>Properties of the nearest neighbour field\<close>

text \<open>
  What an update of one entry leaves alone, the two equations of the random search, and
  the invariants of \<^verbatim>\<open>randomize\<close> and \<^verbatim>\<open>minimize\<close>.
\<close>

lemma set_field_frame [simp]:
  "patchSize (set_field nnf x y p) = patchSize nnf"
  "nnf_input (set_field nnf x y p) = nnf_input nnf"
  "nnf_output (set_field nnf x y p) = nnf_output nnf"
  "imSize (set_field nnf x y p) = imSize nnf"
  by (simp_all add: set_field_def)

lemma field_set_field [simp]:
  "field (set_field nnf x y p) x' y' = (if x' = x \<and> y' = y then p else field nnf x' y')"
  by (simp add: set_field_def)

lemma distance_cong_images:
  assumes "patchSize n' = patchSize n" "nnf_input n' = nnf_input n" "nnf_output n' = nnf_output n"
  shows "distance n' x y xp yp = distance n x y xp yp"
  using assms by (simp add: distance_def distance_sums_def distance_body_def [abs_def] cong: if_cong)

lemma distance_set_field [simp]:
  "distance (set_field nnf a b p) x y xp yp = distance nnf x y xp yp"
  by (rule distance_cong_images) simp_all

lemma adopt_frame [simp]:
  "patchSize (adopt nnf x y xp yp) = patchSize nnf"
  "nnf_input (adopt nnf x y xp yp) = nnf_input nnf"
  "nnf_output (adopt nnf x y xp yp) = nnf_output nnf"
  "imSize (adopt nnf x y xp yp) = imSize nnf"
  by (simp_all add: adopt_def Let_def)

lemma distance_adopt [simp]:
  "distance (adopt nnf a b c d) x y xp yp = distance nnf x y xp yp"
  by (rule distance_cong_images) simp_all

lemma scan_set_field [simp]:
  "forward_scan (set_field nnf x y p) = forward_scan nnf"
  "reverse_scan (set_field nnf x y p) = reverse_scan nnf"
  by (simp_all add: forward_scan_def reverse_scan_def)

lemma random_search_pos:
  "0 < wi \<Longrightarrow> random_search wi xpi ypi x y s =
     random_search (wi sdiv 2) xpi ypi x y
       (adopt (fst s) x y
          (max 0 (min (width (imageSize (nnf_output (fst s))) - 1)
                      (xpi + fst (random_int (2 * wi) (snd s)) - wi)))
          (max 0 (min (height (imageSize (nnf_output (fst s))) - 1)
                      (ypi + fst (random_int (2 * wi) (snd (random_int (2 * wi) (snd s)))) - wi))),
        snd (random_int (2 * wi) (snd (random_int (2 * wi) (snd s)))))"
  by (subst random_search.simps) (simp add: Let_def split_def)

lemma random_search_stop: "wi \<le> 0 \<Longrightarrow> random_search wi xpi ypi x y s = s"
  by (subst random_search.simps) simp

lemma initialize_retry_done:
  "nndistance (field nnf x y) \<noteq> MAX_DIST \<Longrightarrow> initialize_retry n x y (nnf, gen) = (nnf, gen)"
  by (cases n) simp_all

lemma same_images_refl [simp]: "same_images n n"
  by (simp add: same_images_def)

lemma same_images_trans: "same_images a b \<Longrightarrow> same_images b c \<Longrightarrow> same_images a c"
  by (simp add: same_images_def)

lemma same_images_set_field [simp]: "same_images (set_field nnf x y p) n = same_images nnf n"
  by (simp add: same_images_def)

lemma same_images_adopt [simp]: "same_images (adopt nnf x y xp yp) n = same_images nnf n"
  by (simp add: same_images_def)

lemma distance_far_is_MAX_DIST:
  assumes R: "0 \<le> patchSize nnf" and Rm: "patchSize nnf \<le> 7355"
    and ch: "channelCount (imageDev (nnf_input nnf)) \<le> 10"
    and far: "xp < - patchSize nnf \<or> width (imageSize (nnf_output nnf)) + patchSize nnf \<le> xp \<or>
              yp < - patchSize nnf \<or> height (imageSize (nnf_output nnf)) + patchSize nnf \<le> yp"
  shows "distance nnf x y xp yp = MAX_DIST"
proof -
  let ?R = "patchSize nnf"
  have c: "offset_cost nnf x y xp yp dx dy = ssdmax"
    if "dx \<in> {- ?R .. ?R}" "dy \<in> {- ?R .. ?R}" for dx dy
    using far that by (auto simp: offset_cost_def in_bounds_def)
  have "(\<Sum>dy = - ?R .. ?R. \<Sum>dx = - ?R .. ?R. offset_cost nnf x y xp yp dx dy) =
        (\<Sum>dy = - ?R .. ?R. \<Sum>dx = - ?R .. ?R. ssdmax)"
    by (intro sum.cong refl c)
  also have "\<dots> = (2 * ?R + 1) * (2 * ?R + 1) * ssdmax"
    using R by simp
  finally have s: "distance_sums nnf x y xp yp =
      ((2 * ?R + 1) * (2 * ?R + 1) * ssdmax, (2 * ?R + 1) * (2 * ?R + 1) * ssdmax)"
    by (simp add: distance_sums_eq [OF R Rm ch])
  have pos: "0 < (2 * ?R + 1) * (2 * ?R + 1) * ssdmax"
    using R by (simp add: ssdmax_def)
  have "(MAX_DIST * w) div w = MAX_DIST" if "0 < w" for w :: int
    using that by simp
  from this [OF pos] show ?thesis
    by (simp add: distance_eq_div [OF R Rm ch] s)
qed

lemma adopt_near:
  assumes wf: "wf_nnf nnf" and inv: "entries_near_source nnf"
  shows "entries_near_source (adopt nnf x y xp yp)"
proof (cases "distance nnf x y xp yp < nndistance (field nnf x y)")
  case False
  then show ?thesis using inv by (simp add: adopt_def Let_def)
next
  case True
  let ?dp = "distance nnf x y xp yp"
  let ?p = "\<lparr>nnx = xp, nny = yp, nndistance = ?dp\<rparr>"
  have eq: "adopt nnf x y xp yp = set_field nnf x y ?p"
    using True by (simp add: adopt_def Let_def)
  have R: "0 \<le> patchSize nnf" and Rm: "patchSize nnf \<le> 7355"
    and ch: "channelCount (imageDev (nnf_input nnf)) \<le> 10"
    using wf by (simp_all add: wf_nnf_def)
  have new: "entry_near_source nnf ?p"
    if cell: "x \<in> {0 ..< width (imSize nnf)}" "y \<in> {0 ..< height (imSize nnf)}"
  proof -
    from inv cell have "nndistance (field nnf x y) \<le> MAX_DIST"
      by (simp add: entries_near_source_def entry_near_source_def)
    with True have lt: "?dp \<noteq> MAX_DIST" by simp
    have "\<not> (xp < - patchSize nnf \<or> width (imageSize (nnf_output nnf)) + patchSize nnf \<le> xp \<or>
              yp < - patchSize nnf \<or> height (imageSize (nnf_output nnf)) + patchSize nnf \<le> yp)"
      using distance_far_is_MAX_DIST [OF R Rm ch, of xp yp x y] lt by blast
    then show ?thesis
      using distance_bounds [OF R Rm ch, of x y xp yp] by (simp add: entry_near_source_def)
  qed
  show ?thesis
    unfolding eq entries_near_source_def
    using inv new by (auto simp: entries_near_source_def entry_near_source_def)
qed

lemma wf_nnf_adopt [simp]: "wf_nnf (adopt nnf x y xp yp) = wf_nnf nnf"
  by (simp add: wf_nnf_def)

lemma wf_nnf_set_field [simp]: "wf_nnf (set_field nnf x y p) = wf_nnf nnf"
  by (simp add: wf_nnf_def)

lemma random_search_near:
  "near_state s \<Longrightarrow> near_state (random_search wi xpi ypi x y s)"
proof (induction "nat wi" arbitrary: wi s rule: less_induct)
  case less
  show ?case
  proof (cases "0 < wi")
    case False
    then show ?thesis using less.prems by (simp add: random_search_stop)
  next
    case True
    then have dec: "nat (wi sdiv 2) < nat wi"
      by (simp add: signed_divide_int_def sgn_if)
    show ?thesis
      unfolding random_search_pos [OF True]
      by (rule less.hyps [OF dec]) (use less.prems in \<open>simp add: near_state_def adopt_near\<close>)
  qed
qed

lemma minimizeLink_near:
  assumes "near_state s"
  shows "near_state (minimizeLink x y dir s)"
proof -
  have 1: "near_state (propagate_x (fst s) x y dir, snd s)"
    using assms by (simp add: near_state_def propagate_x_def adopt_near)
  then have 2: "near_state (propagate_y (propagate_x (fst s) x y dir) x y dir, snd s)"
    by (simp add: near_state_def propagate_y_def adopt_near)
  show ?thesis
    unfolding minimizeLink_def Let_def by (rule random_search_near) (rule 2)
qed

lemma minimize_pass_near:
  assumes "near_state s"
  shows "near_state (minimize_pass s)"
proof -
  have f: "near_state (fold forward_visit cs t)" if "near_state t" for cs t
    using that by (induction cs arbitrary: t) (simp_all add: forward_visit_def minimizeLink_near)
  have r: "near_state (fold reverse_visit cs t)" if "near_state t" for cs t
    using that by (induction cs arbitrary: t) (simp_all add: reverse_visit_def minimizeLink_near)
  show ?thesis
    unfolding minimize_pass_def Let_def by (intro r f assms)
qed

lemma minimize_near:
  assumes "near_state s"
  shows "near_state (minimize pass s)"
proof -
  have "near_state ((minimize_pass ^^ n) s)" for n
    by (induction n) (simp_all add: assms minimize_pass_near)
  then show ?thesis by (simp add: minimize_def)
qed

lemma set_grid:
  "set (grid nnf) = {0 ..< width (imSize nnf)} \<times> {0 ..< height (imSize nnf)}"
  by (auto simp: grid_def)

lemma fold_establish:
  assumes inv: "\<And>c s. I s \<Longrightarrow> I (f c s)"
    and est: "\<And>c s. c \<in> C \<Longrightarrow> I s \<Longrightarrow> P c (f c s)"
    and pres: "\<And>c c' s. I s \<Longrightarrow> P c' s \<Longrightarrow> P c' (f c s)"
  shows "set cs \<subseteq> C \<Longrightarrow> I s \<Longrightarrow> I (fold f cs s) \<and> (\<forall>c \<in> set cs. P c (fold f cs s))"
proof (induction cs rule: rev_induct)
  case Nil
  then show ?case by simp
next
  case (snoc c cs)
  then have ih: "I (fold f cs s)" "\<forall>c' \<in> set cs. P c' (fold f cs s)" by simp_all
  have "c \<in> C" using snoc.prems by simp
  then show ?case using ih inv est pres by auto
qed

lemma randomize_pixel_same_images [simp]:
  "same_images (fst (randomize_pixel y x s)) n = same_images (fst s) n"
  by (simp add: randomize_pixel_def Let_def split_def)

lemma randomize_pixel_field:
  "field (fst (randomize_pixel y x s)) x' y' =
     (if x' = x \<and> y' = y
      then \<lparr>nnx = int (fst (snd s) (snd (snd s))) mod width (imSize (fst s)),
            nny = int (fst (snd s) (Suc (snd (snd s)))) mod height (imSize (fst s)),
            nndistance = MAX_DIST\<rparr>
      else field (fst s) x' y')"
  by (simp add: randomize_pixel_def Let_def split_def random_int_def)

lemma randomize_loops:
  fixes s :: "NearestNeighborField \<times> mt19937"
  defines "s' \<equiv> fold (\<lambda>y s1. fold (randomize_pixel y) [0 .. width (imSize (fst s)) - 1] s1)
                      [0 .. height (imSize (fst s)) - 1] s"
  shows "same_images (fst s') (fst s) \<and>
         (\<forall>c \<in> set (grid (fst s)). entry_in_target (fst s) (field (fst s') (fst c) (snd c)))"
proof -
  let ?n = "fst s"
  let ?I = "\<lambda>t. same_images (fst t) ?n"
  let ?P = "\<lambda>c t. entry_in_target ?n (field (fst t) (fst c) (snd c))"
  let ?f = "\<lambda>c. randomize_pixel (snd c) (fst c)"
  have s': "s' = fold ?f (grid ?n) s"
    unfolding s'_def grid_def by (rule fold_rows_cols)
  have est: "?P c (?f c t)" if "c \<in> set (grid ?n)" "?I t" for c t
  proof -
    from that(1) have "0 < width (imSize ?n)" "0 < height (imSize ?n)"
      by (auto simp: set_grid)
    moreover have "imSize (fst t) = imSize ?n" using that(2) by (simp add: same_images_def)
    ultimately show ?thesis
      by (simp add: randomize_pixel_field entry_in_target_def MAX_DIST_def)
  qed
  have pres: "?P c' (?f c t)" if "?I t" "?P c' t" for c c' t
  proof (cases "c' = c")
    case True
    then show ?thesis using that(2) est [of c t] that(1)
      by (cases "c \<in> set (grid ?n)")
         (auto simp: randomize_pixel_field entry_in_target_def MAX_DIST_def same_images_def
           intro: pos_mod_sign pos_mod_bound)
  next
    case False
    then show ?thesis using that(2)
      by (auto simp: randomize_pixel_field prod_eq_iff)
  qed
  have "?I (fold ?f (grid ?n) s) \<and> (\<forall>c \<in> set (grid ?n). ?P c (fold ?f (grid ?n) s))"
    by (rule fold_establish [where I = ?I and P = ?P and C = "set (grid ?n)"])
       (simp_all add: est pres)
  then show ?thesis by (simp add: s')
qed

lemma initialize_retry_target:
  assumes wf: "wf_nnf n"
  shows "target_state n s \<Longrightarrow> target_state n (initialize_retry k x y s)"
proof (induction k arbitrary: s)
  case 0
  then show ?case by simp
next
  case (Suc k)
  obtain nnf gen where s: "s = (nnf, gen)" by (cases s)
  show ?case
  proof (cases "nndistance (field nnf x y) = MAX_DIST")
    case False
    then show ?thesis using Suc.prems by (simp add: s)
  next
    case True
    let ?rx = "fst (random_int (width (imSize nnf)) gen)"
    let ?g1 = "snd (random_int (width (imSize nnf)) gen)"
    let ?ry = "fst (random_int (height (imSize nnf)) ?g1)"
    let ?g2 = "snd (random_int (height (imSize nnf)) ?g1)"
    let ?p = "\<lparr>nnx = ?rx, nny = ?ry, nndistance = distance nnf x y ?rx ?ry\<rparr>"
    have same: "same_images nnf n" using Suc.prems by (simp add: target_state_def s)
    then have R: "0 \<le> patchSize nnf" and Rm: "patchSize nnf \<le> 7355"
      and ch: "channelCount (imageDev (nnf_input nnf)) \<le> 10"
      using wf by (simp_all add: wf_nnf_def same_images_def)
    have sz: "imSize nnf = imSize n" using same by (simp add: same_images_def)
    have new: "entry_in_target n ?p" if "(x, y) \<in> set (grid n)"
    proof -
      from that have "0 < width (imSize n)" "0 < height (imSize n)" by (auto simp: set_grid)
      then show ?thesis
        using distance_bounds [OF R Rm ch, of x y ?rx ?ry]
        by (simp add: entry_in_target_def random_int_def sz)
    qed
    have "target_state n (set_field nnf x y ?p, ?g2)"
      using Suc.prems new by (auto simp: target_state_def s)
    from Suc.IH [OF this] show ?thesis
      using True by (simp add: s Let_def split_def)
  qed
qed

lemma initialize_pixel_target:
  assumes wf: "wf_nnf n" and st: "target_state n s"
  shows "target_state n (initialize_pixel y x s)"
proof -
  let ?nnf = "fst s"
  let ?p = "field ?nnf x y"
  let ?q = "?p\<lparr>nndistance := distance ?nnf x y (nnx ?p) (nny ?p)\<rparr>"
  have same: "same_images ?nnf n" using st by (simp add: target_state_def)
  then have R: "0 \<le> patchSize ?nnf" and Rm: "patchSize ?nnf \<le> 7355"
    and ch: "channelCount (imageDev (nnf_input ?nnf)) \<le> 10"
    using wf by (simp_all add: wf_nnf_def same_images_def)
  have new: "entry_in_target n ?q" if "(x, y) \<in> set (grid n)"
    using st that distance_bounds [OF R Rm ch, of x y "nnx ?p" "nny ?p"]
    by (auto simp: target_state_def entry_in_target_def)
  have "target_state n (set_field ?nnf x y ?q, snd s)"
    using st new by (auto simp: target_state_def)
  then show ?thesis
    unfolding initialize_pixel_def Let_def by (rule initialize_retry_target [OF wf])
qed

lemma initialize_target:
  assumes wf: "wf_nnf n" and st: "target_state n s"
  shows "target_state n (initialize s)"
proof -
  have "target_state n (fold (\<lambda>c. initialize_pixel (snd c) (fst c)) cs t)"
    if "target_state n t" for cs t
    using that by (induction cs arbitrary: t) (simp_all add: initialize_pixel_target [OF wf])
  then show ?thesis
    unfolding initialize_def fold_rows_cols using st by simp
qed

lemma randomize_target:
  assumes wf: "wf_nnf nnf"
  shows "target_state nnf (randomize (nnf, gen))"
proof -
  have "target_state nnf
          (fold (\<lambda>y s1. fold (randomize_pixel y) [0 .. width (imSize (fst (nnf, gen))) - 1] s1)
                [0 .. height (imSize (fst (nnf, gen))) - 1] (nnf, gen))"
    using randomize_loops [of "(nnf, gen)"] by (simp add: target_state_def)
  then show ?thesis
    unfolding randomize_def by (rule initialize_target [OF wf])
qed

lemma target_state_in_source:
  assumes st: "target_state n s"
    and w: "width (imSize n) \<le> width (imageSize (nnf_output n))"
    and h: "height (imSize n) \<le> height (imageSize (nnf_output n))"
  shows "entries_in_source (fst s)"
proof -
  have same: "imSize (fst s) = imSize n" "nnf_output (fst s) = nnf_output n"
    using st by (simp_all add: target_state_def same_images_def)
  have "entry_in_source (fst s) p" if "entry_in_target n p" for p
    using that w h by (simp add: entry_in_source_def entry_in_target_def same)
  moreover have "entry_in_target n (field (fst s) x y)"
    if "x \<in> {0 ..< width (imSize n)}" "y \<in> {0 ..< height (imSize n)}" for x y
  proof -
    from that have "(x, y) \<in> set (grid n)" by (simp add: set_grid)
    with st show ?thesis unfolding target_state_def by fastforce
  qed
  ultimately show ?thesis
    by (simp add: entries_in_source_def same)
qed

lemma in_source_near_source:
  assumes R: "0 \<le> patchSize nnf" and inv: "entries_in_source nnf"
  shows "entries_near_source nnf"
proof -
  have "entry_near_source nnf p" if "entry_in_source nnf p" for p
    using that R by (simp add: entry_in_source_def entry_near_source_def)
  then show ?thesis
    using inv by (simp add: entries_in_source_def entries_near_source_def)
qed

subsection \<open>The two example fields, evaluated\<close>

lemma upto_0_1: "[0 .. 1 :: int] = [0, 1]" "[0 .. 0 :: int] = [0]"
  by code_simp+

lemma row_scans: "forward_scan row_nnf = []" "reverse_scan row_nnf = [(1, 0), (0, 0)]"
  by code_simp+

lemma row_imSize: "imSize row_nnf = row_rect" "imageSize (nnf_output row_nnf) = row_rect"
  by (simp_all add: row_nnf_def NearestNeighborField_new_def row_target_def row_source_def
      MaskedImage_new_def cacheEverything_def cacheMask_def cacheImage_def cacheImageSize_def)

lemma row_distances:
  "distance row_nnf 0 0 0 0 = 58981"
  "distance row_nnf 1 0 0 0 = 58253"
  "distance row_nnf 0 0 (- 1) 0 = 58253"
  by code_simp+

lemmas row_eval =
  minimize_def minimize_pass_def forward_visit_def reverse_visit_def minimizeLink_def
  propagate_x_def propagate_y_def adopt_def row_scans random_search_pos random_search_stop
  signed_divide_int_def randomize_def initialize_def randomize_pixel_def initialize_pixel_def
  row_imSize row_rect_def upto_0_1 random_int_def Let_def split_def row_distances
  initialize_retry_done MAX_DIST_def zero_gen_def

lemma row_randomize:
  "field (fst (randomize (row_nnf, zero_gen))) 0 0 = \<lparr>nnx = 0, nny = 0, nndistance = 58981\<rparr>"
  "field (fst (randomize (row_nnf, zero_gen))) 1 0 = \<lparr>nnx = 0, nny = 0, nndistance = 58253\<rparr>"
  by (simp_all add: row_eval)

lemma row_minimize:
  "field (fst (minimize 1 (randomize (row_nnf, zero_gen)))) 0 0 =
     \<lparr>nnx = - 1, nny = 0, nndistance = 58253\<rparr>"
  by (simp add: row_eval)

lemma row_minimize_frame:
  "imSize (fst (minimize 1 (randomize (row_nnf, zero_gen)))) = row_rect"
  "nnf_output (fst (minimize 1 (randomize (row_nnf, zero_gen)))) = nnf_output row_nnf"
  by (simp_all add: row_eval)

subsection \<open>Claim C4\<close>

text \<open>
  Claim C4, as the specification states it: at every moment after \<^verbatim>\<open>randomize\<close>, and
  after every pass of \<^verbatim>\<open>minimize\<close>, every entry has \<open>0 \<le> sx < source.W\<close>,
  \<open>0 \<le> sy < source.H\<close> and \<open>0 \<le> d \<le> D_MAX\<close>. It fails on the row example with the
  generator that always draws zero: \<^verbatim>\<open>randomize\<close> gives both entries the source pixel
  \<open>(0, 0)\<close>; in the reverse scan of the first pass the horizontal propagation at
  \<open>(0, 0)\<close> proposes the source of the right neighbour shifted by \<open>dir = -1\<close>, that is
  \<open>(-1, 0)\<close>, its distance \<open>58253\<close> is below the current \<open>58981\<close>, and it is adopted; the
  random search proposes \<open>(0, 0)\<close> twice, which is no better.
\<close>

theorem minimize_leaves_source_counterexample:
  "entries_in_source (fst (randomize (row_nnf, zero_gen))) \<and>
   field (fst (minimize 1 (randomize (row_nnf, zero_gen)))) 0 0 =
     \<lparr>nnx = - 1, nny = 0, nndistance = 58253\<rparr> \<and>
   \<not> entries_in_source (fst (minimize 1 (randomize (row_nnf, zero_gen))))"
proof -
  let ?n = "fst (minimize 1 (randomize (row_nnf, zero_gen)))"
  have a: "entries_in_source (fst (randomize (row_nnf, zero_gen)))"
  proof -
    have "target_state row_nnf (randomize (row_nnf, zero_gen))"
      by (rule randomize_target) (simp add: wf_nnf_def row_nnf_patchSize row_nnf_channelCount)
    then show ?thesis
      by (rule target_state_in_source) (simp_all add: row_imSize)
  qed
  have "\<not> entries_in_source ?n"
  proof
    assume "entries_in_source ?n"
    then have "entry_in_source ?n (field ?n 0 0)"
      by (simp add: entries_in_source_def row_minimize_frame row_rect_def)
    then show False
      by (simp add: entry_in_source_def row_minimize)
  qed
  with a row_minimize show ?thesis by simp
qed

text \<open>
  Claim C4, amended. For a field whose grid is no larger than the source image, with a
  radius \<open>R\<close> from 0 to 7355 (the radii at which the \<^verbatim>\<open>long\<close> arithmetic of \<^verbatim>\<open>distance\<close>
  does not overflow) and at most ten channels: after \<^verbatim>\<open>randomize\<close> every entry has
  \<open>0 \<le> sx < source.W\<close>, \<open>0 \<le> sy < source.H\<close> and \<open>0 \<le> d \<le> D_MAX\<close>; after every number of
  passes of \<^verbatim>\<open>minimize\<close> every entry has \<open>-R \<le> sx < source.W + R\<close>,
  \<open>-R \<le> sy < source.H + R\<close> and \<open>0 \<le> d \<le> D_MAX\<close>. A candidate is adopted exactly when its
  distance is strictly smaller, with no test of its range; one further out than \<open>R\<close> has
  the distance \<open>D_MAX\<close> and is never adopted.
\<close>

theorem nnf_entries_stay_near_source:
  assumes "0 \<le> patchSize nnf" and "patchSize nnf \<le> 7355"
    and "channelCount (imageDev (nnf_input nnf)) \<le> 10"
    and "width (imSize nnf) \<le> width (imageSize (nnf_output nnf))"
    and "height (imSize nnf) \<le> height (imageSize (nnf_output nnf))"
  shows "entries_in_source (fst (randomize (nnf, gen))) \<and>
         entries_near_source (fst (minimize pass (randomize (nnf, gen))))"
proof -
  have wf: "wf_nnf nnf" using assms(1,2,3) by (simp add: wf_nnf_def)
  let ?s = "randomize (nnf, gen)"
  have t: "target_state nnf ?s" by (rule randomize_target [OF wf])
  then have a: "entries_in_source (fst ?s)"
    using assms(4,5) by (rule target_state_in_source)
  have same: "same_images (fst ?s) nnf" using t by (simp add: target_state_def)
  then have wf': "wf_nnf (fst ?s)" using wf by (simp add: wf_nnf_def same_images_def)
  have "entries_near_source (fst ?s)"
    using a same assms(1) by (intro in_source_near_source) (simp_all add: same_images_def)
  then have "near_state ?s" using wf' by (simp add: near_state_def)
  then have "near_state (minimize pass ?s)" by (rule minimize_near)
  with a show ?thesis by (simp add: near_state_def)
qed

theorem nnf_entries_stay_near_source_witness:
  "0 \<le> patchSize row_nnf \<and> patchSize row_nnf \<le> 7355 \<and>
   channelCount (imageDev (nnf_input row_nnf)) \<le> 10 \<and>
   width (imSize row_nnf) \<le> width (imageSize (nnf_output row_nnf)) \<and>
   height (imSize row_nnf) \<le> height (imageSize (nnf_output row_nnf)) \<and>
   entries_in_source (fst (randomize (row_nnf, zero_gen))) \<and>
   entries_near_source (fst (minimize 1 (randomize (row_nnf, zero_gen))))"
proof -
  have h1: "0 \<le> patchSize row_nnf" by (simp add: row_nnf_patchSize)
  have h2: "patchSize row_nnf \<le> 7355" by (simp add: row_nnf_patchSize)
  have h3: "channelCount (imageDev (nnf_input row_nnf)) \<le> 10" by (simp add: row_nnf_channelCount)
  have h4: "width (imSize row_nnf) \<le> width (imageSize (nnf_output row_nnf))"
    by (simp add: row_imSize)
  have h5: "height (imSize row_nnf) \<le> height (imageSize (nnf_output row_nnf))"
    by (simp add: row_imSize)
  show ?thesis
    using nnf_entries_stay_near_source [OF h1 h2 h3 h4 h5, of zero_gen 1] h1 h2 h3 h4 h5 by simp
qed

subsection \<open>Claim C6\<close>

text \<open>
  Claim C6 says that the forward scan of a pass visits every row \<open>0 .. H - 1\<close>. The loop
  head is \<^verbatim>\<open>for(int y=min_y; y<max_y; y++)\<close> with \<^verbatim>\<open>max_y = height - 1\<close>, next to
  \<^verbatim>\<open>x<=max_x\<close> for the columns and \<^verbatim>\<open>y>=min_y\<close> from \<^verbatim>\<open>max_y\<close> in the reverse scan: the
  forward scan stops one row short, at \<open>H - 2\<close>, and the last row is visited by the
  reverse scan only. On a grid one pixel high the forward scan visits nothing.
\<close>

theorem forward_scan_stops_before_last_row:
  "set (forward_scan nnf) = {0 ..< width (imSize nnf)} \<times> {0 ..< height (imSize nnf) - 1} \<and>
   set (reverse_scan nnf) = {0 ..< width (imSize nnf)} \<times> {0 ..< height (imSize nnf)} \<and>
   (x, height (imSize nnf) - 1) \<notin> set (forward_scan nnf)"
proof -
  have g: "set (concat (map (\<lambda>y. map (\<lambda>x. (x, y)) xs) ys)) = set xs \<times> set ys"
    for xs ys :: "int list"
    by auto
  have u: "{0 .. n - 1} = {0 ..< n}" for n :: int
    by auto
  have f: "set (forward_scan nnf) =
      set [0 .. width (imSize nnf) - 1] \<times> set [0 .. height (imSize nnf) - 1 - 1]"
    unfolding forward_scan_def Let_def by (rule g)
  have r: "set (reverse_scan nnf) =
      set (rev [0 .. width (imSize nnf) - 1]) \<times> set (rev [0 .. height (imSize nnf) - 1])"
    unfolding reverse_scan_def Let_def by (rule g)
  have v: "{0 .. n - 2} = {0 ..< n - 1}" for n :: int
    by auto
  show ?thesis
    unfolding f r by (simp add: u v)
qed

subsection \<open>Claim C7\<close>

lemma col_imSize: "imSize col_nnf = col_rect" "imageSize (nnf_output col_nnf) = col_rect"
  by (simp_all add: col_nnf_def NearestNeighborField_new_def col_target_def col_source_def
      MaskedImage_new_def cacheEverything_def cacheMask_def cacheImage_def cacheImageSize_def)

lemma col_distances:
  "distance col_nnf 0 0 0 0 = 58981"
  "distance col_nnf 0 1 0 1 = 58981"
  "distance col_nnf 0 0 0 (- 1) = 58253"
  by code_simp+

lemmas col_eval =
  propagate_y_def adopt_def randomize_def initialize_def randomize_pixel_def initialize_pixel_def
  col_imSize col_rect_def upto_0_1 random_int_def Let_def split_def col_distances
  initialize_retry_done MAX_DIST_def col_gen_def col_start_def

text \<open>
  Claim C7 says that the vertical candidate at \<open>(x, y)\<close> takes its \<open>y\<close> component from the
  adjacent cell: \<open>(nnf[x,y].sx, nnf[x,y-dir].sy + dir)\<close>. The source tests the index of
  the adjacent cell (\<^verbatim>\<open>y-dir>0 && y-dir<imSize.height()\<close>) and then reads both components
  from the current cell: \<^verbatim>\<open>xp = field[x][y].x; yp = field[x][y].y+dir\<close>, where the
  horizontal step reads \<^verbatim>\<open>field[x-dir][y]\<close>. On the column example the entries after
  \<^verbatim>\<open>randomize\<close> are \<open>(0, 0)\<close> at \<open>(0, 0)\<close> and \<open>(0, 1)\<close> at \<open>(0, 1)\<close>. With \<open>dir = -1\<close> the
  candidate of the claim at \<open>(0, 0)\<close> is \<open>(0, 1 + dir) = (0, 0)\<close>, the current entry, which
  is not strictly better and changes nothing; the source tries \<open>(0, 0 + dir) = (0, -1)\<close>
  and adopts it.
\<close>

theorem propagate_y_reads_current_cell:
  "field col_start 0 0 = \<lparr>nnx = 0, nny = 0, nndistance = 58981\<rparr> \<and>
   field col_start 0 1 = \<lparr>nnx = 0, nny = 1, nndistance = 58981\<rparr> \<and>
   field (adopt col_start 0 0 (nnx (field col_start 0 0)) (nny (field col_start 0 1) + - 1)) 0 0 =
     \<lparr>nnx = 0, nny = 0, nndistance = 58981\<rparr> \<and>
   field (propagate_y col_start 0 0 (- 1)) 0 0 = \<lparr>nnx = 0, nny = - 1, nndistance = 58253\<rparr>"
  by (simp add: col_eval)

section \<open>Properties of MaskedImage and of the driver\<close>

lemma imageSize_cacheEverything [simp]:
  "imageSize (cacheEverything m) = exactBounds (imageDev m)"
  by (simp add: cacheEverything_def cacheMask_def cacheImage_def cacheImageSize_def)

lemma imageDev_cacheEverything [simp]:
  "imageDev (cacheEverything m) = imageDev m" "maskDev (cacheEverything m) = maskDev m"
  by (simp_all add: cacheEverything_def cacheMask_def cacheImage_def cacheImageSize_def)

lemma maskCache_cacheEverything [simp]:
  "maskCache (cacheEverything m) x y = (rawData (maskDev m) x y ! 0 < 128)"
  by (simp add: cacheEverything_def cacheMask_def cacheImage_def cacheImageSize_def)

lemma clone_simps [simp]:
  "imageSize (clone m) = exactBounds (imageDev m)"
  "imageDev (clone m) = imageDev m"
  "maskDev (clone m) = maskDev m"
  "maskCache (clone m) x y = (rawData (maskDev m) x y ! 0 < 128)"
  by (simp_all add: clone_def MaskedImage_new_def)

lemma clearMask_frame [simp]:
  "imageDev (clearMask m) = imageDev m"
  "imageSize (clearMask m) = imageSize m"
  "imageCache (clearMask m) = imageCache m"
  "maskCache (clearMask m) = maskCache m"
  "exactBounds (maskDev (clearMask m)) = exactBounds (maskDev m)"
  by (simp_all add: clearMask_def fill_def Let_def)

lemma clearMask_bytes:
  assumes "rect_x (exactBounds (maskDev m)) \<le> x" "x < rect_x (exactBounds (maskDev m)) + width (exactBounds (maskDev m))"
    and "rect_y (exactBounds (maskDev m)) \<le> y" "y < rect_y (exactBounds (maskDev m)) + height (exactBounds (maskDev m))"
  shows "rawData (maskDev (clearMask m)) x y = [0]"
  using assms by (simp add: clearMask_def fill_def Let_def)

lemma isMasked_clearMask: "isMasked (clearMask m) x y = isMasked m x y"
  by (simp add: isMasked_def)

lemma isMasked_clone_clearMask:
  assumes "rect_x (exactBounds (maskDev m)) \<le> x" "x < rect_x (exactBounds (maskDev m)) + width (exactBounds (maskDev m))"
    and "rect_y (exactBounds (maskDev m)) \<le> y" "y < rect_y (exactBounds (maskDev m)) + height (exactBounds (maskDev m))"
  shows "isMasked (clone (clearMask m)) x y"
  using clearMask_bytes [OF assms] by (simp add: isMasked_def)

lemma cached_clone [simp]: "cached (clone m)"
  by (simp add: cached_def)

lemma alignRectBy2_size:
  "width (alignRectBy2 r) = width r + width r mod 2"
  "height (alignRectBy2 r) = height r + height r mod 2"
  by (simp_all add: alignRectBy2_def isOdd_def Let_def minus_mod_eq_mult_div)

lemma downsample2x_size:
  assumes c: "cached m" and w: "1 \<le> width (imageSize m)" and h: "1 \<le> height (imageSize m)"
  shows "width (imageSize (downsample2x mix m)) = (width (imageSize m) + width (imageSize m) mod 2) div 2"
    and "height (imageSize (downsample2x mix m)) = (height (imageSize m) + height (imageSize m) mod 2) div 2"
    and "cached (downsample2x mix m)"
proof -
  let ?src = "alignRectBy2 (exactBounds (imageDev m))"
  have e: "exactBounds (imageDev m) = imageSize m" using c by (simp add: cached_def)
  have ws: "width ?src = width (imageSize m) + width (imageSize m) mod 2"
    and hs: "height ?src = height (imageSize m) + height (imageSize m) mod 2"
    by (simp_all add: alignRectBy2_size e)
  have ge: "\<not> (width ?src < 1 \<or> height ?src < 1)"
    using w h ws hs by (smt (verit) pos_mod_sign)
  have sd: "a sdiv 2 = a div 2" if "0 \<le> a" for a :: int
    using that by (simp add: signed_divide_int_def sgn_if)
  have nn: "0 \<le> width ?src" "0 \<le> height ?src" using ge by simp_all
  show "width (imageSize (downsample2x mix m)) = (width (imageSize m) + width (imageSize m) mod 2) div 2"
    using ge by (simp add: downsample2x_def Let_def downsample_device_def sd [OF nn(1)] ws [symmetric])
  show "height (imageSize (downsample2x mix m)) = (height (imageSize m) + height (imageSize m) mod 2) div 2"
    using ge by (simp add: downsample2x_def Let_def downsample_device_def sd [OF nn(2)] hs [symmetric])
  show "cached (downsample2x mix m)"
    by (simp add: downsample2x_def Let_def cached_def c [unfolded cached_def])
qed

lemma half_up_less: "2 \<le> (w::int) \<Longrightarrow> (w + w mod 2) div 2 < w"
  by presburger

lemma downsample2x_decreases:
  assumes "cached m" "1 \<le> radius" "radius < width (imageSize m)" "radius < height (imageSize m)"
  shows "width (imageSize (downsample2x mix m)) < width (imageSize m) \<and>
         height (imageSize (downsample2x mix m)) < height (imageSize m)"
  using downsample2x_size(1,2) [OF assms(1), of mix] assms(2-4) half_up_less by simp

lemma pyramid_loop_returns:
  assumes r: "1 \<le> radius"
  shows "cached source \<Longrightarrow>
     \<exists>s p. pyramid_loop host radius source pyramid = Some (s, p) \<and> cached s \<and>
           (width (imageSize s) \<le> radius \<or> height (imageSize s) \<le> radius \<or> countMasked s = 0)"
proof (induction "nat (width (imageSize source))" arbitrary: source pyramid rule: less_induct)
  case less
  show ?case
  proof (cases "radius < width (imageSize source) \<and> radius < height (imageSize source)")
    case False
    then show ?thesis using less.prems
      by (subst pyramid_loop.simps) auto
  next
    case big: True
    show ?thesis
    proof (cases "countMasked source = 0")
      case True
      then show ?thesis using big less.prems
        by (subst pyramid_loop.simps) auto
    next
      case False
      let ?s' = "downsample2x (mixColorsOp host) source"
      have dec: "width (imageSize ?s') < width (imageSize source)"
        using downsample2x_decreases [OF less.prems r] big by simp
      have c': "cached ?s'"
        using downsample2x_size(3) [OF less.prems] big r by simp
      have "nat (width (imageSize ?s')) < nat (width (imageSize source))"
        using dec big r by simp
      from less.hyps [OF this c', of "pyramid @ [clone ?s']"]
      show ?thesis using big False
        by (subst pyramid_loop.simps) simp
    qed
  qed
qed

lemma sdiv_self_int: "w \<noteq> 0 \<Longrightarrow> (w::int) sdiv w = 1"
  by (simp add: signed_divide_int_def sgn_if)

lemma upscale_result:
  assumes "width (imageSize m) \<noteq> 0" "height (imageSize m) \<noteq> 0"
  shows "\<exists>r. upscale f xsize ysize m = Some r \<and> cached r \<and>
           width (imageSize r) = width (exactBounds (imageDev m)) * (xsize sdiv width (imageSize m)) \<and>
           height (imageSize r) = height (exactBounds (imageDev m)) * (ysize sdiv height (imageSize m))"
  using assms by (simp add: upscale_def Let_def KisTransformWorker_run_def cached_def)

lemma same_extent_refl [simp]: "same_extent t t"
  by (simp add: same_extent_def)

lemma same_extent_setImagePixels [simp]:
  "same_extent (setImagePixels host x y v t') t = same_extent t' t"
  by (simp add: same_extent_def setImagePixels_def)

lemma maximize_channel_extent:
  "same_extent (snd (snd st)) t \<Longrightarrow>
   same_extent (snd (snd (maximize_channel host nnf hist wsum x y chan st))) t"
  by (simp add: maximize_channel_def Let_def)

lemma EM_pixel_extent:
  assumes "same_extent (fst st) t"
  shows "same_extent (fst (EM_pixel host source nnf upscaled R y x st)) t"
proof -
  have "same_extent (snd (snd (fold (maximize_channel host nnf hist wsum x y) cs s))) t"
    if "same_extent (snd (snd s)) t" for cs s hist wsum
    using that by (induction cs arbitrary: s) (simp_all add: maximize_channel_extent)
  then show ?thesis
    using assms by (simp add: EM_pixel_def Let_def)
qed

lemma EM_Step_extent: "same_extent (fst (EM_Step host radius source target nnf upscaled)) target"
proof -
  have "same_extent (fst (fold (\<lambda>c. EM_pixel host source nnf upscaled R (snd c) (fst c)) cs s)) t"
    if "same_extent (fst s) t" for cs s t R
    using that by (induction cs arbitrary: s) (simp_all add: EM_pixel_extent)
  then show ?thesis
    by (simp add: EM_Step_def Let_def fold_rows_cols)
qed

lemma EM_iteration_early:
  assumes "emloop \<noteq> min (2 * level) 4"
  shows "\<exists>st'. EM_iteration host radius pyramid level target emloop (Some st) = Some st'"
  using assms by (cases st) (simp add: EM_iteration_def Let_def split_def)

lemma EM_iteration_last:
  assumes "1 \<le> level" "emloop = min (2 * level) 4"
    and "width (imageSize target) \<noteq> 0" "height (imageSize target) \<noteq> 0"
  shows "\<exists>nnf' gen' t. EM_iteration host radius pyramid level target emloop (Some st) = Some (nnf', gen', Some t) \<and>
      imageSize t = exactBounds (imageDev t) \<and>
      width (imageSize t) = width (exactBounds (imageDev target)) *
         (width (imageSize (pyramid ! nat (level - 1))) sdiv width (imageSize target)) \<and>
      height (imageSize t) = height (exactBounds (imageDev target)) *
         (height (imageSize (pyramid ! nat (level - 1))) sdiv height (imageSize target))"
proof -
  obtain nnf0 gen0 nt0 where st: "st = (nnf0, gen0, nt0)" by (cases st)
  let ?sz = "imageSize (pyramid ! nat (level - 1))"
  obtain r where r: "upscale (bilinear host) (width ?sz) (height ?sz) target = Some r" "cached r"
      "width (imageSize r) = width (exactBounds (imageDev target)) * (width ?sz sdiv width (imageSize target))"
      "height (imageSize r) = height (exactBounds (imageDev target)) * (height ?sz sdiv height (imageSize target))"
    using upscale_result [OF assms(3,4)] by blast
  have ext: "same_extent (fst (EM_Step host radius src r nnf True)) r" for src nnf
    by (rule EM_Step_extent)
  show ?thesis
    using assms(1,2) r ext
    by (simp add: st EM_iteration_def Let_def split_def same_extent_def cached_def)
qed

lemma EM_fold_early:
  assumes "\<forall>e \<in> set es. e \<noteq> min (2 * level) 4"
  shows "\<exists>st'. fold (EM_iteration host radius pyramid level target) es (Some st) = Some st'"
  using assms
proof (induction es arbitrary: st)
  case Nil
  then show ?case by (simp del: split_paired_Ex)
next
  case (Cons e es)
  from Cons.prems have "e \<noteq> min (2 * level) 4" by simp
  from EM_iteration_early [OF this, of host radius pyramid target st]
  obtain st1 where "EM_iteration host radius pyramid level target e (Some st) = Some st1"
    by blast
  then show ?case using Cons by (simp del: split_paired_Ex)
qed

lemma ExpectationMaximization_result:
  assumes "1 \<le> level"
    and "width (imageSize (nnf_input (fst s))) \<noteq> 0" "height (imageSize (nnf_input (fst s))) \<noteq> 0"
  shows "\<exists>nnf' gen' t. ExpectationMaximization host radius pyramid level s = Some (nnf', gen', Some t) \<and>
      imageSize t = exactBounds (imageDev t) \<and>
      width (imageSize t) = width (exactBounds (imageDev (nnf_input (fst s)))) *
         (width (imageSize (pyramid ! nat (level - 1))) sdiv width (imageSize (nnf_input (fst s)))) \<and>
      height (imageSize t) = height (exactBounds (imageDev (nnf_input (fst s)))) *
         (height (imageSize (pyramid ! nat (level - 1))) sdiv height (imageSize (nnf_input (fst s))))"
proof -
  let ?n = "min (2 * level) 4"
  let ?f = "EM_iteration host radius pyramid level (nnf_input (fst s))"
  have n: "1 \<le> ?n" using assms(1) by simp
  have split: "[1 .. ?n] = [1 .. ?n - 1] @ [?n]"
    using n upto_rec2 [of 1 ?n] by simp
  have "\<forall>e \<in> set [1 .. ?n - 1]. e \<noteq> ?n" by auto
  from EM_fold_early [OF this, of host radius pyramid "nnf_input (fst s)" "(fst s, snd s, None)"]
  obtain st' where st': "fold ?f [1 .. ?n - 1] (Some (fst s, snd s, None)) = Some st'"
    by blast
  show ?thesis
    unfolding ExpectationMaximization_def split
    using EM_iteration_last [OF assms(1) refl assms(2,3), of host radius pyramid st']
    by (simp add: st')
qed

lemma initialize_retry_same:
  "same_images (fst (initialize_retry k x y s)) n = same_images (fst s) n"
proof (induction k arbitrary: s)
  case 0
  then show ?case by simp
next
  case (Suc k)
  obtain nnf gen where s: "s = (nnf, gen)" by (cases s)
  show ?case
    by (simp add: s Let_def split_def Suc.IH)
qed

lemma initialize_same: "same_images (fst (initialize s)) n = same_images (fst s) n"
proof -
  have "same_images (fst (fold (\<lambda>c. initialize_pixel (snd c) (fst c)) cs t)) n = same_images (fst t) n"
    for cs t
    by (induction cs arbitrary: t) (simp_all add: initialize_pixel_def Let_def initialize_retry_same)
  then show ?thesis
    by (simp add: initialize_def fold_rows_cols)
qed

lemma randomize_same: "same_images (fst (randomize s)) n = same_images (fst s) n"
proof -
  have "same_images (fst (fold (\<lambda>c. randomize_pixel (snd c) (fst c)) cs t)) n = same_images (fst t) n"
    for cs t
    by (induction cs arbitrary: t) simp_all
  then show ?thesis
    by (simp add: randomize_def initialize_same fold_rows_cols)
qed

lemma randomize_input: "nnf_input (fst (randomize (nnf, gen))) = nnf_input nnf"
  using randomize_same [of "(nnf, gen)" nnf] by (simp add: same_images_def)

lemma pyramid_3x3_radius_2:
  assumes c: "imageSize initial = exactBounds (imageDev initial)"
    and w: "width (imageSize initial) = 3" and h: "height (imageSize initial) = 3"
    and holes: "countMasked (clone initial) \<noteq> 0"
  shows "pyramid_loop host 2 (clone initial) [initial] =
           Some (downsample2x (mixColorsOp host) (clone initial),
                 [initial, clone (downsample2x (mixColorsOp host) (clone initial))])"
    and "width (imageSize (downsample2x (mixColorsOp host) (clone initial))) = 2"
    and "height (imageSize (downsample2x (mixColorsOp host) (clone initial))) = 2"
    and "cached (downsample2x (mixColorsOp host) (clone initial))"
proof -
  let ?c0 = "clone initial"
  let ?s1 = "downsample2x (mixColorsOp host) ?c0"
  have eb: "width (exactBounds (imageDev initial)) = 3" "height (exactBounds (imageDev initial)) = 3"
    using c w h by simp_all
  have c0: "cached ?c0" "width (imageSize ?c0) = 3" "height (imageSize ?c0) = 3"
    using eb by simp_all
  show s1: "width (imageSize ?s1) = 2" "height (imageSize ?s1) = 2" "cached ?s1"
    using downsample2x_size [OF c0(1), of "mixColorsOp host"] c0(2,3) by simp_all
  have inner: "pyramid_loop host 2 ?s1 p = Some (?s1, p)" for p
    by (subst pyramid_loop.simps) (simp add: s1)
  show "pyramid_loop host 2 ?c0 [initial] = Some (?s1, [initial, clone ?s1])"
    by (subst pyramid_loop.simps) (simp add: eb holes inner)
qed

lemma patch_3x3_radius_2:
  assumes c: "imageSize initial = exactBounds (imageDev initial)"
    and w: "width (imageSize initial) = 3" and h: "height (imageSize initial) = 3"
    and holes: "countMasked (clone initial) \<noteq> 0"
  shows "\<exists>t g. patch host initial 2 gen = Some (t, g) \<and>
               width (imageSize t) = 2 \<and> height (imageSize t) = 2"
proof -
  let ?c0 = "clone initial"
  let ?s1 = "downsample2x (mixColorsOp host) ?c0"
  note loop = pyramid_3x3_radius_2(1) [OF assms, of host]
  note s1 = pyramid_3x3_radius_2(2,3,4) [OF assms, of host]
  let ?target = "clearMask (clone ?s1)"
  let ?pyr = "[initial, clone ?s1]"
  let ?s = "randomize (NearestNeighborField_new ?target (clone ?s1) 2, gen)"
  have e1: "exactBounds (imageDev ?s1) = imageSize ?s1"
    using s1(3) by (simp add: cached_def)
  have inp: "nnf_input (fst ?s) = ?target"
    by (simp add: randomize_input NearestNeighborField_new_def)
  have tsz: "width (imageSize ?target) = 2" "height (imageSize ?target) = 2"
    "width (exactBounds (imageDev ?target)) = 2" "height (exactBounds (imageDev ?target)) = 2"
    by (simp_all add: e1 s1)
  have nz: "width (imageSize (nnf_input (fst ?s))) \<noteq> 0" "height (imageSize (nnf_input (fst ?s))) \<noteq> 0"
    by (simp_all add: inp tsz del: clearMask_frame clone_simps)
  from ExpectationMaximization_result [OF _ nz, of 1 host 2 ?pyr]
  obtain nnf' gen' t where em: "ExpectationMaximization host 2 ?pyr 1 ?s = Some (nnf', gen', Some t)"
    and tw: "width (imageSize t) = width (exactBounds (imageDev (nnf_input (fst ?s)))) *
         (width (imageSize (?pyr ! nat (1 - 1))) sdiv width (imageSize (nnf_input (fst ?s))))"
    and th: "height (imageSize t) = height (exactBounds (imageDev (nnf_input (fst ?s)))) *
         (height (imageSize (?pyr ! nat (1 - 1))) sdiv height (imageSize (nnf_input (fst ?s))))"
    by auto
  have q: "(3::int) sdiv 2 = 1" by (simp add: signed_divide_int_def)
  have tw2: "width (imageSize t) = 2" and th2: "height (imageSize t) = 2"
    using tw th by (simp_all add: inp tsz w h q del: clearMask_frame clone_simps)
  have lvl: "patch_level host 2 ?pyr 1 (Some (?target, None, gen)) = Some (t, Some nnf', gen')"
    by (simp add: patch_level_def Let_def em del: clearMask_frame clone_simps)
  have "patch host initial 2 gen = Some (t, gen')"
    by (simp add: patch_def loop Let_def lvl del: clearMask_frame clone_simps)
  with tw2 th2 show ?thesis by blast
qed

subsection \<open>Claim C2\<close>

lemma row_source_mask:
  "isMasked row_source 0 0 = False" "isMasked row_source 1 0 = True"
  "exactBounds (maskDev row_source) = row_rect"
  by (simp_all add: row_source_def MaskedImage_new_def isMasked_def)

text \<open>
  Claim C2 says that after \<^verbatim>\<open>clearMask\<close> no pixel is masked. \<^verbatim>\<open>patch\<close> says the same of
  its first target (\<^verbatim>\<open>// We consider that this target contains no masked pixels\<close>,
  followed by \<^verbatim>\<open>target->clearMask()\<close>). \<^verbatim>\<open>clearMask\<close> fills the mask device with 0 and
  leaves \<^verbatim>\<open>maskCache\<close> as it was, so \<^verbatim>\<open>isMasked\<close> answers as before; and a byte 0 is below
  128, so every pixel is a hole once the cache is rebuilt (as \<^verbatim>\<open>clone\<close> does). On the
  row source, whose right pixel is a hole: the right pixel is still masked after
  \<^verbatim>\<open>clearMask\<close>, both mask bytes are 0, both pixels are masked in the clone, and the image
  device is untouched.
\<close>

theorem clearMask_keeps_holes:
  "isMasked (clearMask row_source) 1 0 \<and>
   rawData (maskDev (clearMask row_source)) 0 0 = [0] \<and>
   rawData (maskDev (clearMask row_source)) 1 0 = [0] \<and>
   isMasked (clone (clearMask row_source)) 0 0 \<and>
   isMasked (clone (clearMask row_source)) 1 0 \<and>
   imageDev (clearMask row_source) = imageDev row_source"
  by (simp add: isMasked_clearMask row_source_mask clearMask_bytes isMasked_clone_clearMask row_rect_def)

subsection \<open>Claim C10\<close>

text \<open>
  Claim C10. For every initial masked image and every radius \<open>\<ge> 1\<close> the loop of the
  pyramid in \<^verbatim>\<open>patch\<close> ends: \<^verbatim>\<open>downsample2x\<close> makes both dimensions strictly smaller
  whenever both are above the radius, and the loop returns with
  \<open>min(W, H) \<le> radius\<close> or \<^verbatim>\<open>countMasked() == 0\<close>.
\<close>

theorem pyramid_loop_terminates:
  assumes "1 \<le> radius"
  shows "(\<forall>m. cached m \<and> radius < width (imageSize m) \<and> radius < height (imageSize m) \<longrightarrow>
            width (imageSize (downsample2x (mixColorsOp host) m)) < width (imageSize m) \<and>
            height (imageSize (downsample2x (mixColorsOp host) m)) < height (imageSize m)) \<and>
         (\<exists>source pyramid.
            pyramid_loop host radius (clone initial) [initial] = Some (source, pyramid) \<and>
            (width (imageSize source) \<le> radius \<or> height (imageSize source) \<le> radius \<or>
             countMasked source = 0))"
proof -
  have "\<exists>s p. pyramid_loop host radius (clone initial) [initial] = Some (s, p) \<and> cached s \<and>
          (width (imageSize s) \<le> radius \<or> height (imageSize s) \<le> radius \<or> countMasked s = 0)"
    by (rule pyramid_loop_returns [OF assms]) simp
  then show ?thesis
    using downsample2x_decreases [OF _ assms] by blast
qed

lemma square_initial_size:
  "imageSize square_initial = square_rect" "exactBounds (imageDev square_initial) = square_rect"
  by (simp_all add: square_initial_def MaskedImage_new_def)

lemma square_initial_holes: "countMasked (clone square_initial) = 1"
  by code_simp

theorem pyramid_loop_terminates_witness:
  "(1::int) \<le> 2 \<and>
   (\<exists>source pyramid.
      pyramid_loop example_host 2 (clone square_initial) [square_initial] = Some (source, pyramid) \<and>
      (width (imageSize source) \<le> 2 \<or> height (imageSize source) \<le> 2 \<or> countMasked source = 0)) \<and>
   pyramid_loop example_host 2 (clone square_initial) [square_initial] =
     Some (downsample2x (mixColorsOp example_host) (clone square_initial),
           [square_initial, clone (downsample2x (mixColorsOp example_host) (clone square_initial))]) \<and>
   width (imageSize (clone square_initial)) = 3 \<and>
   width (imageSize (downsample2x (mixColorsOp example_host) (clone square_initial))) = 2"
proof -
  have h: "(1::int) \<le> 2" by simp
  have sq: "imageSize square_initial = exactBounds (imageDev square_initial)"
    "width (imageSize square_initial) = 3" "height (imageSize square_initial) = 3"
    "countMasked (clone square_initial) \<noteq> 0"
    by (simp_all add: square_initial_size square_rect_def square_initial_holes)
  note ev = pyramid_3x3_radius_2 [OF sq, of example_host]
  have "width (imageSize (clone square_initial)) = 3"
    by (simp add: square_initial_size square_rect_def)
  then show ?thesis
    using pyramid_loop_terminates [OF h, of example_host square_initial] h ev(1,2) by blast
qed

subsection \<open>Claim C5\<close>

text \<open>
  Claim C5 says that \<^verbatim>\<open>upscale(w, h)\<close> returns an image of exactly \<open>w \<times> h\<close>. The factors
  handed to the transform worker are \<^verbatim>\<open>xsize/sz.width()\<close> and \<^verbatim>\<open>ysize/sz.height()\<close>,
  divisions of \<^verbatim>\<open>int\<close> by \<^verbatim>\<open>int\<close>: the fraction is lost before the conversion to
  \<^verbatim>\<open>double\<close>. The row source is two pixels wide; asked for the width 3 the factor is
  \<open>3 / 2 = 1\<close> and the result is two pixels wide, whatever the filter.
\<close>

theorem upscale_truncates_factor:
  "\<exists>r. upscale strategy 3 1 row_source = Some r \<and>
       width (imageSize row_source) = 2 \<and> height (imageSize row_source) = 1 \<and>
       width (imageSize r) = 2 \<and> height (imageSize r) = 1"
proof -
  have sz: "imageSize row_source = row_rect" "exactBounds (imageDev row_source) = row_rect"
    by (simp_all add: row_source_def MaskedImage_new_def)
  have q: "(3::int) sdiv 2 = 1" "(1::int) sdiv 1 = 1" by (simp_all add: signed_divide_int_def)
  from upscale_result [of row_source strategy 3 1]
  show ?thesis by (auto simp: sz row_rect_def q)
qed

subsection \<open>Claim C3\<close>

text \<open>
  Claim C3 says that the surface \<^verbatim>\<open>patch\<close> returns has the bounds of the input. The last
  EM iteration of level 1 builds the result with
  \<^verbatim>\<open>target->upscale(sz.width(), sz.height())\<close>, \<^verbatim>\<open>sz\<close> the size of the input; with the
  truncated factor of \<^verbatim>\<open>upscale\<close> a target that is not an exact divisor of the input
  stays smaller. For the three by three image with one hole and the radius 2 (the radius
  of \<^verbatim>\<open>testPatchMatch\<close>) the pyramid is the input and its half of two by two pixels, and
  \<^verbatim>\<open>patch\<close> returns an image of two by two pixels, for every host and all draws of the
  generator.
\<close>

theorem patch_result_smaller_than_input:
  "\<exists>t g. patch host square_initial 2 gen = Some (t, g) \<and>
         width (imageSize square_initial) = 3 \<and> height (imageSize square_initial) = 3 \<and>
         width (imageSize t) = 2 \<and> height (imageSize t) = 2"
proof -
  have "\<exists>t g. patch host square_initial 2 gen = Some (t, g) \<and>
               width (imageSize t) = 2 \<and> height (imageSize t) = 2"
    by (rule patch_3x3_radius_2)
       (simp_all add: square_initial_size square_rect_def square_initial_holes)
  then show ?thesis
    by (simp add: square_initial_size square_rect_def)
qed

section \<open>Properties of the voting step\<close>

lemma tanh_artanh_real:
  fixes x :: real
  assumes "- 1 < x" "x < 1"
  shows "tanh (artanh x) = x"
proof -
  let ?y = "tanh (artanh x)"
  have y: "- 1 < ?y" "?y < 1"
    using tanh_real_gt_neg1 [of "artanh x"] tanh_real_lt_1 [of "artanh x"] by simp_all
  have "artanh ?y = artanh x" by (rule artanh_tanh_real)
  then have "ln ((1 + ?y) / (1 - ?y)) = ln ((1 + x) / (1 - x))"
    by (simp add: artanh_def)
  moreover have "0 < (1 + ?y) / (1 - ?y)" "0 < (1 + x) / (1 - x)"
    using y assms by simp_all
  ultimately have "(1 + ?y) / (1 - ?y) = (1 + x) / (1 - x)"
    by (simp add: ln_inj_iff)
  then have "(1 + ?y) * (1 - x) = (1 + x) * (1 - ?y)"
    using y assms by (simp add: field_simps)
  then show ?thesis by (simp add: algebra_simps)
qed

lemma init_similarity_curve_range:
  "0 < init_similarity_curve i \<and> init_similarity_curve i < 1"
proof -
  obtain c where "init_similarity_curve i = 1 / 2 - (1 / 2) * tanh c"
    by (simp add: init_similarity_curve_def Let_def)
  then show ?thesis
    using tanh_real_gt_neg1 [of c] tanh_real_lt_1 [of c] by simp
qed

lemma init_similarity_curve_0: "init_similarity_curve 0 = 999 / 1000"
proof -
  have "init_similarity_curve 0 = 1 / 2 - (1 / 2) * tanh (- artanh (499 / 500))"
    by (simp add: init_similarity_curve_def Let_def artanh_def)
  also have "\<dots> = 1 / 2 + (1 / 2) * (499 / 500)"
    by (simp add: tanh_artanh_real)
  finally show ?thesis by simp
qed

lemma float_to_int_fraction: "0 \<le> w \<Longrightarrow> w < 1 \<Longrightarrow> float_to_int (0 + w) = 0"
  by (simp add: float_to_int_def floor_eq_iff)

lemma vote_channel_zero:
  assumes "0 \<le> w" "w < 1" "fst acc = (\<lambda>c i. 0)"
  shows "fst (vote_channel nnf source x y w chan acc) = (\<lambda>c i. 0)"
  using assms float_to_int_fraction [of w]
  by (auto simp: vote_channel_def Let_def fun_eq_iff)

lemma fold_vote_channel_zero:
  assumes "0 \<le> w" "w < 1"
  shows "fst acc = (\<lambda>c i. 0) \<Longrightarrow> fst (fold (vote_channel nnf source x y w) cs acc) = (\<lambda>c i. 0)"
  by (induction cs arbitrary: acc) (simp_all add: vote_channel_zero [OF assms])

lemma estimate_body_zero:
  assumes "similarity_below_one nnf" "fst acc = (\<lambda>c i. 0)"
  shows "fst (estimate_body source nnf upscaled x y dy dx acc) = (\<lambda>c i. 0)"
proof -
  have w: "0 \<le> similarity nnf d" "similarity nnf d < 1" for d
    using assms(1) by (simp_all add: similarity_below_one_def)
  have z: "fst (fold (vote_channel nnf source x y (similarity nnf d)) cs (\<lambda>c i. 0, 0)) = (\<lambda>c i. 0)" for d cs
    by (rule fold_vote_channel_zero [OF w]) simp
  show ?thesis
    by (simp add: estimate_body_def Let_def assms(2) z)
qed

lemma estimate_zero:
  assumes "similarity_below_one nnf"
  shows "fst (estimate source nnf upscaled R x y) = (\<lambda>c i. 0)"
proof -
  have "fst (fold (\<lambda>c. estimate_body source nnf upscaled x y (snd c) (fst c)) cs acc) = (\<lambda>c i. 0)"
    if "fst acc = (\<lambda>c i. 0)" for cs acc
    using that by (induction cs arbitrary: acc) (simp_all add: estimate_body_zero [OF assms])
  then show ?thesis
    by (simp add: estimate_def fold_rows_cols)
qed

lemma cdf_walk_zero:
  assumes "0 < lowth"
  shows "cdf_walk (\<lambda>i. 0) lowth highth i (0, c, wc) = (c, wc)"
proof (induction "256 - i" arbitrary: i rule: less_induct)
  case less
  show ?case
  proof (cases "i < 256")
    case True
    then have "256 - (i + 1) < 256 - i" by simp
    from less.hyps [OF this] show ?thesis
      using True assms by (subst cdf_walk.simps) (simp add: Let_def)
  next
    case False
    then show ?thesis by (subst cdf_walk.simps) simp
  qed
qed

lemma maximize_channel_zero_histogram:
  assumes "1 \<le> wsum" "nnf_channels nnf ! chan \<noteq> ALPHA" "chan < length (fst st)"
  shows "fst (maximize_channel host nnf (\<lambda>c i. 0) wsum x y chan st) ! chan = None"
proof -
  have "0 < 4 / 10 * wsum" using assms(1) by simp
  from cdf_walk_zero [OF this, of "6 / 10 * wsum" 0 0 0]
  show ?thesis
    using assms(2,3) by (simp add: maximize_channel_def Let_def fdiv_def)
qed

lemma NearestNeighborField_new_similarity:
  "similarity_below_one (NearestNeighborField_new inp outp r)"
  using init_similarity_curve_range
  by (simp add: similarity_below_one_def NearestNeighborField_new_def less_imp_le)

lemma upto_m1_1: "[- 1 .. 1 :: int] = [- 1, 0, 1]"
  by code_simp

lemma flat_distances:
  "distance flat_base 0 0 0 0 = 36408" "distance flat_base 1 0 1 0 = 21845" "distance flat_base 2 0 2 0 = 21845"
  "distance flat_base 0 1 0 1 = 21845" "distance flat_base 1 1 1 1 = 0" "distance flat_base 2 1 2 1 = 0"
  "distance flat_base 0 2 0 2 = 36408" "distance flat_base 1 2 1 2 = 21845" "distance flat_base 2 2 2 2 = 21845"
  by code_simp+

lemma flat_facts:
  "imageSize flat = flat_rect"
  "isMasked flat x y = (\<not> (0 \<le> x \<and> x < 4 \<and> 0 \<le> y \<and> y < 3))"
  "nnf_input flat_nnf = flat" "similarity flat_nnf = init_similarity_curve"
  "field flat_nnf x y = \<lparr>nnx = x, nny = y, nndistance = distance flat_base x y x y\<rparr>"
  "nnf_channels flat_nnf = [COLOR, ALPHA]"
  by (simp_all add: flat_def flat_nnf_def flat_base_def NearestNeighborField_new_def
      MaskedImage_new_def isMasked_def cacheEverything_def cacheMask_def cacheImage_def
      cacheImageSize_def)

lemma flat_wsum:
  "snd (estimate flat flat_nnf False 1 1 1) =
     2 * init_similarity_curve 0 + 5 * init_similarity_curve 21845 + 2 * init_similarity_curve 36408"
  by (simp add: estimate_def estimate_body_def upto_m1_1 Let_def flat_facts flat_rect_def flat_distances)

subsection \<open>Claim C1\<close>

text \<open>
  Claim C1 says that the histogram is a grid of floats and that, for a pixel with
  \<open>wsum \<ge> 1\<close>, the walk over the bins has \<open>wcontrib > 0\<close> when \<^verbatim>\<open>contrib / wcontrib\<close> is
  computed. \<^verbatim>\<open>HistArray_type\<close> is \<^verbatim>\<open>boost::multi_array<int, 2>\<close>:
  \<^verbatim>\<open>histogram[colorChan][colorValue]+=w\<close> adds a weight below 1 to an \<^verbatim>\<open>int\<close> and converts
  the sum back, so every bin stays 0 (\<open>estimate_zero\<close>, for every input), the running
  \<^verbatim>\<open>cdf\<close> never reaches \<open>lowth = 0.4 wsum > 0\<close>, and the division is \<open>0 / 0\<close>
  (\<open>maximize_channel_zero_histogram\<close>). On the flat image with every pixel linked to
  itself, at the pixel \<open>(1, 1)\<close> with radius 1: the two centres \<open>(1, 1)\<close> and \<open>(2, 1)\<close>
  have distance 0 and weight \<open>0.999\<close>, so \<open>wsum \<ge> 1\<close>; the histogram is zero; the walk
  returns \<open>contrib = wcontrib = 0\<close>; the value written for the colour channel is the
  quotient of zero by zero.
\<close>

theorem EM_Step_divides_zero_by_zero:
  "1 \<le> snd (estimate flat flat_nnf False 1 1 1) \<and>
   fst (estimate flat flat_nnf False 1 1 1) = (\<lambda>c i. 0) \<and>
   cdf_walk (fst (estimate flat flat_nnf False 1 1 1) 0)
     (4 / 10 * snd (estimate flat flat_nnf False 1 1 1))
     (6 / 10 * snd (estimate flat flat_nnf False 1 1 1)) 0 (0, 0, 0) = (0, 0) \<and>
   fst (maximize_channel example_host flat_nnf (fst (estimate flat flat_nnf False 1 1 1))
          (snd (estimate flat flat_nnf False 1 1 1)) 1 1 0
          (getImagePixels example_host 1 1 flat, 0, flat)) ! 0 = None"
proof -
  let ?e = "estimate flat flat_nnf False 1 1 1"
  have sim: "similarity_below_one flat_nnf"
    using NearestNeighborField_new_similarity [of flat flat 1]
    by (simp add: similarity_below_one_def flat_nnf_def flat_base_def)
  have z: "fst ?e = (\<lambda>c i. 0)" by (rule estimate_zero [OF sim])
  have w: "1 \<le> snd ?e"
    using init_similarity_curve_range [of 21845] init_similarity_curve_range [of 36408]
    by (simp add: flat_wsum init_similarity_curve_0)
  then have low: "0 < 4 / 10 * snd ?e" by simp
  have walk: "cdf_walk (fst ?e 0) (4 / 10 * snd ?e) (6 / 10 * snd ?e) 0 (0, 0, 0) = (0, 0)"
    unfolding z by (rule cdf_walk_zero [OF low])
  have len: "0 < length (fst (getImagePixels example_host 1 1 flat, 0::nat, flat))"
    by (simp add: getImagePixels_def example_host_def flat_def MaskedImage_new_def)
  have "fst (maximize_channel example_host flat_nnf (\<lambda>c i. 0) (snd ?e) 1 1 0
          (getImagePixels example_host 1 1 flat, 0, flat)) ! 0 = None"
    by (rule maximize_channel_zero_histogram [OF w _ len]) (simp add: flat_facts)
  with z w walk show ?thesis by simp
qed

end
